theory Spec2Isabelle
  imports Main "HOL-Library.Sublist"
begin

section \<open>Python values and built-in operations used by the two scripts\<close>

text \<open>
  The repository holds two scripts that share function names: \<^verbatim>\<open>daily_workout.py\<close> (the
  one-shot variant, constants prefixed \<open>dw_\<close> below) and \<^verbatim>\<open>workOutNotification.py\<close>
  (the long-running variant, constants prefixed \<open>wn_\<close>).

  Both read \<^verbatim>\<open>workouts.json\<close> with \<^verbatim>\<open>json.load\<close>, so every value they handle is a
  parsed JSON value. Floating-point numbers are left out (their decimal rendering is not
  modelled), and a character is one of the code points 0 to 255. A JSON object is an
  association list in document order; \<^verbatim>\<open>json.load\<close> yields distinct keys, and
  \<open>map_of\<close> looks a key up.
\<close>

datatype jval =
    JNull
  | JBool bool
  | JInt int
  | JStr string
  | JList "jval list"
  | JObj "(string \<times> jval) list"

subsection \<open>Exceptions\<close>

text \<open>
  Every exception class the scripts raise, catch or let through. \<^verbatim>\<open>exit(n)\<close> raises
  \<open>SystemExit n\<close>, which like \<open>KeyboardInterrupt\<close> is not a subclass of
  \<^verbatim>\<open>Exception\<close>. The string is the text that \<^verbatim>\<open>str(e)\<close> gives.
\<close>

datatype exn =
    SystemExit int
  | KeyboardInterrupt
  | SMTPException string
  | OSError string
  | FileNotFoundError string
  | JSONDecodeError string
  | ValueError string
  | AttributeError string
  | TypeError string
  | IndexError string
  | KeyError string

fun is_Exception :: "exn \<Rightarrow> bool" where
  "is_Exception (SystemExit n) = False"
| "is_Exception KeyboardInterrupt = False"
| "is_Exception e = True"

fun is_SMTPException :: "exn \<Rightarrow> bool" where
  "is_SMTPException (SMTPException t) = True"
| "is_SMTPException e = False"

fun exn_text :: "exn \<Rightarrow> string" where
  "exn_text (SystemExit n) = []"
| "exn_text KeyboardInterrupt = []"
| "exn_text (SMTPException t) = t"
| "exn_text (OSError t) = t"
| "exn_text (FileNotFoundError t) = t"
| "exn_text (JSONDecodeError t) = t"
| "exn_text (ValueError t) = t"
| "exn_text (AttributeError t) = t"
| "exn_text (TypeError t) = t"
| "exn_text (IndexError t) = t"
| "exn_text (KeyError t) = t"

subsection \<open>Decimal rendering, \<^verbatim>\<open>repr\<close> and \<^verbatim>\<open>str\<close>\<close>

fun show_nat :: "nat \<Rightarrow> string" where
  "show_nat n =
     (if n < 10 then [char_of (48 + n)]
      else show_nat (n div 10) @ [char_of (48 + n mod 10)])"

declare show_nat.simps [simp del]

definition show_int :: "int \<Rightarrow> string" where
  "show_int i = (if i < 0 then CHR ''-'' # show_nat (nat (- i)) else show_nat (nat i))"

fun join :: "string \<Rightarrow> string list \<Rightarrow> string" where
  "join sep [] = []"
| "join sep [x] = x"
| "join sep (x # y # ys) = x @ sep @ join sep (y # ys)"

definition hex_digit :: "nat \<Rightarrow> char" where
  "hex_digit n = (if n < 10 then char_of (48 + n) else char_of (87 + n))"

definition printable :: "char \<Rightarrow> bool" where
  \<open>printable c =
     (let n = (of_char c :: nat)
      in 32 \<le> n \<and> n \<noteq> 127 \<and> \<not> (128 \<le> n \<and> n \<le> 160) \<and> n \<noteq> 173)\<close>

definition repr_char :: "char \<Rightarrow> char \<Rightarrow> string" where
  \<open>repr_char q c =
     (if c = q \<or> c = CHR 0x5C then [CHR 0x5C, c]
      else if c = CHR 0x09 then [CHR 0x5C, CHR ''t'']
      else if c = CHR 0x0A then [CHR 0x5C, CHR ''n'']
      else if c = CHR 0x0D then [CHR 0x5C, CHR ''r'']
      else if printable c then [c]
      else [CHR 0x5C, CHR ''x'', hex_digit (of_char c div 16), hex_digit (of_char c mod 16)])\<close>

definition repr_str :: "string \<Rightarrow> string" where
  \<open>repr_str s =
     (let q = (if CHR 0x27 \<in> set s \<and> CHR 0x22 \<notin> set s then CHR 0x22 else CHR 0x27)
      in q # concat (map (repr_char q) s) @ [q])\<close>

fun py_repr :: "jval \<Rightarrow> string"
  and py_repr_list :: "jval list \<Rightarrow> string list"
  and py_repr_items :: "(string \<times> jval) list \<Rightarrow> string list" where
  "py_repr JNull = ''None''"
| "py_repr (JBool b) = (if b then ''True'' else ''False'')"
| "py_repr (JInt i) = show_int i"
| "py_repr (JStr s) = repr_str s"
| "py_repr (JList xs) = ''['' @ join '', '' (py_repr_list xs) @ '']''"
| "py_repr (JObj kvs) = ''{'' @ join '', '' (py_repr_items kvs) @ ''}''"
| "py_repr_list [] = []"
| "py_repr_list (x # xs) = py_repr x # py_repr_list xs"
| "py_repr_items [] = []"
| "py_repr_items ((k, v) # kvs) = (repr_str k @ '': '' @ py_repr v) # py_repr_items kvs"

text \<open>What an f-string substitutes for \<^verbatim>\<open>{v}\<close>: \<^verbatim>\<open>str(v)\<close>.\<close>

fun py_str :: "jval \<Rightarrow> string" where
  "py_str (JStr s) = s"
| "py_str v = py_repr v"

text \<open>Truth value testing, as in \<^verbatim>\<open>if url:\<close> and \<^verbatim>\<open>if not days:\<close>.\<close>

fun truthy :: "jval \<Rightarrow> bool" where
  "truthy JNull = False"
| "truthy (JBool b) = b"
| "truthy (JInt i) = (i \<noteq> 0)"
| "truthy (JStr s) = (s \<noteq> [])"
| "truthy (JList xs) = (xs \<noteq> [])"
| "truthy (JObj kvs) = (kvs \<noteq> [])"

fun type_name :: "jval \<Rightarrow> string" where
  "type_name JNull = ''NoneType''"
| "type_name (JBool b) = ''bool''"
| "type_name (JInt i) = ''int''"
| "type_name (JStr s) = ''str''"
| "type_name (JList xs) = ''list''"
| "type_name (JObj kvs) = ''dict''"

subsection \<open>Operations that can raise\<close>

text \<open>\<^verbatim>\<open>v.get(k, d)\<close>: only a dict has the method.\<close>

fun py_get :: "jval \<Rightarrow> string \<Rightarrow> jval \<Rightarrow> exn + jval" where
  "py_get (JObj kvs) k d = Inr (case map_of kvs k of None \<Rightarrow> d | Some v \<Rightarrow> v)"
| "py_get v k d =
     Inl (AttributeError (CHR 0x27 # type_name v @ [CHR 0x27] @ '' object has no attribute ''
            @ [CHR 0x27] @ ''get'' @ [CHR 0x27]))"

text \<open>\<^verbatim>\<open>len(v)\<close>.\<close>

fun py_len :: "jval \<Rightarrow> exn + nat" where
  "py_len (JList xs) = Inr (length xs)"
| "py_len (JStr s) = Inr (length s)"
| "py_len (JObj kvs) = Inr (length kvs)"
| "py_len v =
     Inl (TypeError (''object of type '' @ [CHR 0x27] @ type_name v @ [CHR 0x27] @ '' has no len()''))"

text \<open>
  \<^verbatim>\<open>v[i]\<close> for an index \<open>i \<ge> 0\<close> (a weekday). A dict parsed from JSON has string keys
  only, so an integer key is never found.
\<close>

fun py_index :: "jval \<Rightarrow> nat \<Rightarrow> exn + jval" where
  "py_index (JList xs) i =
     (if i < length xs then Inr (xs ! i) else Inl (IndexError ''list index out of range''))"
| "py_index (JStr s) i =
     (if i < length s then Inr (JStr [s ! i]) else Inl (IndexError ''string index out of range''))"
| "py_index (JObj kvs) i = Inl (KeyError (show_nat i))"
| "py_index v i =
     Inl (TypeError ([CHR 0x27] @ type_name v @ [CHR 0x27] @ '' object is not subscriptable''))"

text \<open>
  The items a \<^verbatim>\<open>for\<close> loop visits: the elements of a list, the characters of a string,
  the keys of a dict.
\<close>

fun py_iter :: "jval \<Rightarrow> exn + jval list" where
  "py_iter (JList xs) = Inr xs"
| "py_iter (JStr s) = Inr (map (\<lambda>c. JStr [c]) s)"
| "py_iter (JObj kvs) = Inr (map (\<lambda>kv. JStr (fst kv)) kvs)"
| "py_iter v =
     Inl (TypeError ([CHR 0x27] @ type_name v @ [CHR 0x27] @ '' object is not iterable''))"

subsection \<open>\<^verbatim>\<open>int(s)\<close> on a string, base 10\<close>

text \<open>
  Surrounding whitespace is dropped (among the code points 0 to 255: the space, the
  controls 9 to 13, next-line and the no-break space), one sign is allowed, then digits
  with single underscores between them. More than 4300 digits are refused (the
  interpreter's default limit).
\<close>

definition is_space :: "char \<Rightarrow> bool" where
  \<open>is_space c =
     (c \<in> {CHR 0x20, CHR 0x09, CHR 0x0A, CHR 0x0B, CHR 0x0C, CHR 0x0D, CHR 0x85, CHR 0xA0})\<close>

definition is_digit :: "char \<Rightarrow> bool" where
  \<open>is_digit c = (48 \<le> (of_char c :: nat) \<and> (of_char c :: nat) \<le> 57)\<close>

definition strip :: "string \<Rightarrow> string" where
  "strip s = rev (dropWhile is_space (rev (dropWhile is_space s)))"

text \<open>Digits and underscores, starting at a digit; an underscore must be followed by a digit.\<close>

fun digits_ok :: "string \<Rightarrow> bool" where
  "digits_ok [] = False"
| "digits_ok [c] = is_digit c"
| "digits_ok (c # d # cs) =
     (if is_digit c then (if d = CHR ''_'' then digits_ok cs else digits_ok (d # cs))
      else False)"

definition digits_value :: "string \<Rightarrow> nat" where
  "digits_value ds = foldl (\<lambda>acc c. 10 * acc + (of_char c - 48)) 0 (filter is_digit ds)"

definition int_error :: "string \<Rightarrow> exn" where
  "int_error s = ValueError (''invalid literal for int() with base 10: '' @ repr_str s)"

definition py_int :: "string \<Rightarrow> exn + int" where
  \<open>py_int s =
     (let t = strip s;
          neg = (t \<noteq> [] \<and> hd t = CHR ''-'');
          ds = (if t \<noteq> [] \<and> (hd t = CHR ''-'' \<or> hd t = CHR ''+'') then tl t else t);
          n = length (filter is_digit ds)
      in if \<not> digits_ok ds then Inl (int_error s)
         else if 4300 < n then
           Inl (ValueError (''Exceeds the limit (4300 digits) for integer string conversion: value has ''
                  @ show_nat n @ '' digits; use sys.set_int_max_str_digits() to increase the limit''))
         else Inr (if neg then - int (digits_value ds) else int (digits_value ds)))\<close>

section \<open>Effects: the log, the mail relay, exceptions\<close>

text \<open>
  What a run does to the outside world is a list of events, oldest first: the records
  handed to \<^verbatim>\<open>logging\<close>, the calls made on the \<^verbatim>\<open>smtplib.SMTP\<close> session, and the
  scheduler's sleeps. A statement of the source is a function from the events so far to
  a result (\<open>Inl\<close> an exception that propagates, \<open>Inr\<close> a value) and the events
  after it.
\<close>

datatype level = INFO | WARNING | ERROR

text \<open>The MIME message: its three headers and its one attached text part.\<close>

record message =
  msg_subject :: string
  msg_from :: string
  msg_to :: string
  msg_body :: string
  msg_subtype :: string

datatype event =
    Log level string
  | Connect string int
  | StartTLS
  | Login string string
  | Sendmail string string message
  | Quit
  | Sleep nat

type_synonym 'a prog = "event list \<Rightarrow> (exn + 'a) \<times> event list"

definition ret :: "'a \<Rightarrow> 'a prog" where
  "ret x = (\<lambda>s. (Inr x, s))"

definition raise :: "exn \<Rightarrow> 'a prog" where
  "raise e = (\<lambda>s. (Inl e, s))"

definition bind :: "'a prog \<Rightarrow> ('a \<Rightarrow> 'b prog) \<Rightarrow> 'b prog" where
  "bind m f = (\<lambda>s. case m s of (Inl e, s') \<Rightarrow> (Inl e, s') | (Inr x, s') \<Rightarrow> f x s')"

definition lift :: "exn + 'a \<Rightarrow> 'a prog" where
  "lift r = (\<lambda>s. (r, s))"

definition emit :: "event \<Rightarrow> unit prog" where
  "emit ev = (\<lambda>s. (Inr (), s @ [ev]))"

definition logging :: "level \<Rightarrow> string \<Rightarrow> unit prog" where
  "logging lvl text = emit (Log lvl text)"

definition py_exit :: "int \<Rightarrow> 'a prog" where
  "py_exit n = raise (SystemExit n)"

text \<open>
  \<^verbatim>\<open>try: m  except ...: h\<close>. The handler \<open>h\<close> is given the exception and re-raises
  the ones no \<^verbatim>\<open>except\<close> clause matches.
\<close>

definition try_except :: "'a prog \<Rightarrow> (exn \<Rightarrow> 'a prog) \<Rightarrow> 'a prog" where
  "try_except m h = (\<lambda>s. case m s of (Inl e, s') \<Rightarrow> h e s' | (Inr x, s') \<Rightarrow> (Inr x, s'))"

text \<open>Sequencing of operations that only compute or raise.\<close>

definition sbind :: "exn + 'a \<Rightarrow> ('a \<Rightarrow> exn + 'b) \<Rightarrow> exn + 'b" where
  "sbind r f = (case r of Inl e \<Rightarrow> Inl e | Inr x \<Rightarrow> f x)"

text \<open>
  The status the process ends with: 0 when the script runs to its end, the argument of
  \<^verbatim>\<open>exit\<close> (the scripts only pass 1), 1 for an uncaught exception, and 130 as
  the shell reports the interrupt signal.
\<close>

fun exit_status :: "exn + 'a \<Rightarrow> int" where
  "exit_status (Inr x) = 0"
| "exit_status (Inl (SystemExit n)) = n"
| "exit_status (Inl KeyboardInterrupt) = 130"
| "exit_status (Inl e) = 1"

subsection \<open>The mail relay\<close>

text \<open>
  The relay is outside the program: for each step of a session it either accepts or
  makes \<^verbatim>\<open>smtplib\<close> raise. \<^verbatim>\<open>with smtplib.SMTP(host, port) as server: body\<close> connects,
  runs the body, and on the way out (also when the body raised) sends QUIT; an exception
  from QUIT replaces the body's.
\<close>

datatype smtp_step = SConnect | SStartTLS | SLogin | SSendmail | SQuit

type_synonym relay = "smtp_step \<Rightarrow> exn option"

definition smtp_op :: "relay \<Rightarrow> smtp_step \<Rightarrow> event \<Rightarrow> unit prog" where
  "smtp_op tr st ev = bind (emit ev) (\<lambda>_. case tr st of None \<Rightarrow> ret () | Some e \<Rightarrow> raise e)"

definition with_SMTP :: "relay \<Rightarrow> string \<Rightarrow> int \<Rightarrow> 'a prog \<Rightarrow> 'a prog" where
  "with_SMTP tr host port body =
     bind (smtp_op tr SConnect (Connect host port)) (\<lambda>_.
       (\<lambda>s. case body s of
               (Inl e, s') \<Rightarrow> bind (smtp_op tr SQuit Quit) (\<lambda>_. raise e) s'
             | (Inr x, s') \<Rightarrow> bind (smtp_op tr SQuit Quit) (\<lambda>_. ret x) s'))"

text \<open>Reading \<^verbatim>\<open>workouts.json\<close>: \<^verbatim>\<open>open\<close> or \<^verbatim>\<open>json.load\<close> raises, or the document.\<close>

type_synonym file_read = "exn + jval"

text \<open>\<^verbatim>\<open>os.getenv\<close>.\<close>

type_synonym environ = "string \<Rightarrow> string option"

text \<open>The truth value of what \<^verbatim>\<open>os.getenv\<close> returned: set and not empty.\<close>

fun env_truthy :: "string option \<Rightarrow> bool" where
  "env_truthy None = False"
| "env_truthy (Some v) = (v \<noteq> [])"

section \<open>The one-shot variant: \<^verbatim>\<open>daily_workout.py\<close>\<close>

subsection \<open>\<^verbatim>\<open>load_workouts\<close>\<close>

definition dw_load_workouts :: "string \<Rightarrow> file_read \<Rightarrow> jval prog" where
  \<open>dw_load_workouts json_path fr =
     bind (logging INFO (''Loading workouts from '' @ json_path)) (\<lambda>_.
     try_except
       (bind (lift fr) (\<lambda>workout_data.
        bind (lift (py_get workout_data ''days'' (JList []))) (\<lambda>days.
        if \<not> truthy days then
          bind (logging ERROR ''No workouts found in the JSON file.'') (\<lambda>_. py_exit 1)
        else
          bind (lift (py_len days)) (\<lambda>n.
          bind (logging INFO (''Loaded '' @ show_nat n @ '' days of workouts.'')) (\<lambda>_.
          ret days)))))
       (\<lambda>e. case e of
              FileNotFoundError t \<Rightarrow>
                bind (logging ERROR (''JSON file not found at '' @ json_path @ ''.'')) (\<lambda>_. py_exit 1)
            | JSONDecodeError t \<Rightarrow>
                bind (logging ERROR (''Error decoding JSON: '' @ t)) (\<lambda>_. py_exit 1)
            | _ \<Rightarrow> raise e))\<close>

subsection \<open>\<^verbatim>\<open>build_workout_html\<close>\<close>

definition dw_head_pre :: string where
  \<open>dw_head_pre =
     ''    <html>\<newline>'' @
     ''    <head>\<newline>'' @
     ''        <style>\<newline>'' @
     ''            body {\<newline>'' @
     ''                font-family: Arial, sans-serif;\<newline>'' @
     ''            }\<newline>'' @
     ''            .day-title {\<newline>'' @
     ''                background-color: #f2f2f2;\<newline>'' @
     ''                padding: 10px;\<newline>'' @
     ''                border-radius: 5px;\<newline>'' @
     ''                font-size: 20px;\<newline>'' @
     ''                margin-bottom: 20px;\<newline>'' @
     ''            }\<newline>'' @
     ''            .exercise {\<newline>'' @
     ''                margin-bottom: 15px;\<newline>'' @
     ''            }\<newline>'' @
     ''            .exercise a {\<newline>'' @
     ''                text-decoration: none;\<newline>'' @
     ''                color: #007BFF;\<newline>'' @
     ''            }\<newline>'' @
     ''        </style>\<newline>'' @
     ''    </head>\<newline>'' @
     ''    <body>\<newline>'' @
     ''        <div class="day-title">''\<close>

definition dw_head_post :: string where
  \<open>dw_head_post =
     ''</div>\<newline>'' @
     ''    ''\<close>

definition dw_exercise_pre :: string where
  \<open>dw_exercise_pre =
     ''\<newline>'' @
     ''        <div class="exercise">\<newline>'' @
     ''            <p><strong>''\<close>

definition dw_exercise_sets :: string where
  \<open>dw_exercise_sets =
     ''</strong></p>\<newline>'' @
     ''            <p>Sets/Reps: ''\<close>

definition dw_exercise_rest :: string where
  \<open>dw_exercise_rest =
     ''</p>\<newline>'' @
     ''            <p>Rest: ''\<close>

definition dw_exercise_post :: string where
  \<open>dw_exercise_post =
     ''</p>\<newline>'' @
     ''        </div>\<newline>'' @
     ''        ''\<close>

definition dw_tail :: string where
  \<open>dw_tail =
     ''\<newline>'' @
     ''        <p><em>Tip:</em> Always warm up properly, focus on form, and stay hydrated!</p>\<newline>'' @
     ''    </body>\<newline>'' @
     ''    </html>\<newline>'' @
     ''    ''\<close>

text \<open>
  The body of the \<^verbatim>\<open>for ex in exercises\<close> loop evaluates one f-string, the fragment
  of the exercise, and appends it to \<^verbatim>\<open>html_content\<close>.
\<close>

definition dw_exercise_html :: "jval \<Rightarrow> exn + string" where
  \<open>dw_exercise_html ex =
     sbind (py_get ex ''name'' (JStr ''Unknown Exercise'')) (\<lambda>name.
     sbind (py_get ex ''sets'' (JStr [])) (\<lambda>sets.
     sbind (py_get ex ''rest'' (JStr [])) (\<lambda>rest.
     sbind (py_get ex ''url'' (JStr [])) (\<lambda>url.
     let exercise_name =
           (if truthy url then
              JStr (''<a href="'' @ py_str url @ ''" target="_blank">'' @ py_str name @ ''</a>'')
            else name)
     in Inr (dw_exercise_pre @ py_str exercise_name @ dw_exercise_sets
               @ py_str sets @ dw_exercise_rest @ py_str rest @ dw_exercise_post)))))\<close>

fun dw_loop :: "jval list \<Rightarrow> string \<Rightarrow> exn + string" where
  "dw_loop [] html_content = Inr html_content"
| "dw_loop (ex # exs) html_content =
     sbind (dw_exercise_html ex) (\<lambda>fragment. dw_loop exs (html_content @ fragment))"

definition dw_build_workout_html :: "jval \<Rightarrow> string prog" where
  \<open>dw_build_workout_html day_info =
     bind (lift (py_get day_info ''title'' (JStr ''Workout''))) (\<lambda>title.
     bind (lift (py_get day_info ''exercises'' (JList []))) (\<lambda>exercises.
     bind (logging INFO (''Building HTML for: '' @ py_str title)) (\<lambda>_.
     bind (lift (py_iter exercises)) (\<lambda>items.
     bind (lift (dw_loop items (dw_head_pre @ py_str title @ dw_head_post))) (\<lambda>html_content.
     ret (html_content @ dw_tail))))))\<close>

subsection \<open>\<^verbatim>\<open>get_today_workout\<close>\<close>

text \<open>
  \<open>today_index\<close> is what \<^verbatim>\<open>datetime.utcnow().weekday()\<close> returned: Monday is 0 and
  Sunday is 6.
\<close>

definition dw_get_today_workout :: "nat \<Rightarrow> jval \<Rightarrow> jval prog" where
  \<open>dw_get_today_workout today_index days_list =
     bind (logging INFO (''Today's index (UTC): '' @ show_nat today_index)) (\<lambda>_.
     bind (lift (py_len days_list)) (\<lambda>n.
     if today_index < n then
       bind (lift (py_index days_list today_index)) (\<lambda>entry.
       bind (lift (py_get entry ''title'' (JStr ''No Title''))) (\<lambda>selected_workout_title.
       lift (py_index days_list today_index)))
     else
       bind (logging ERROR ''Today's workout index is out of range.'') (\<lambda>_. py_exit 1)))\<close>

subsection \<open>\<^verbatim>\<open>send_email\<close>\<close>

definition dw_send_email ::
  "relay \<Rightarrow> string \<Rightarrow> string \<Rightarrow> string \<Rightarrow> string \<Rightarrow> string \<Rightarrow> string \<Rightarrow> string \<Rightarrow> unit prog" where
  \<open>dw_send_email tr subject html_body smtp_server smtp_port email_address email_password
       recipient_email =
     bind (logging INFO (''Preparing to send email to '' @ recipient_email
             @ '' with subject '' @ [CHR 0x27] @ subject @ [CHR 0x27])) (\<lambda>_.
     let msg = \<lparr>msg_subject = subject, msg_from = email_address, msg_to = recipient_email,
                msg_body = html_body, msg_subtype = ''html''\<rparr>
     in try_except
          (bind (logging INFO (''Connecting to SMTP server: '' @ smtp_server @ '':'' @ smtp_port)) (\<lambda>_.
           bind (lift (py_int smtp_port)) (\<lambda>port.
           bind (with_SMTP tr smtp_server port
                   (bind (smtp_op tr SStartTLS StartTLS) (\<lambda>_.
                    bind (logging INFO ''Logging into SMTP server'') (\<lambda>_.
                    bind (smtp_op tr SLogin (Login email_address email_password)) (\<lambda>_.
                    bind (logging INFO ''Sending email'') (\<lambda>_.
                    smtp_op tr SSendmail (Sendmail email_address recipient_email msg))))))) (\<lambda>_.
           logging INFO (''Email sent successfully to '' @ recipient_email @ ''.'')))))
          (\<lambda>e. if is_SMTPException e then
                 logging ERROR (''SMTP error when sending email: '' @ exn_text e)
               else if is_Exception e then
                 logging ERROR (''Unexpected error when sending email: '' @ exn_text e)
               else raise e))\<close>

subsection \<open>\<^verbatim>\<open>main\<close>\<close>

text \<open>
  \<open>json_file_path\<close> is the path of \<^verbatim>\<open>workouts.json\<close> beside the script and
  \<open>day_name\<close> what \<^verbatim>\<open>datetime.utcnow().strftime('%A')\<close> returned.
\<close>

definition dw_main :: "string \<Rightarrow> file_read \<Rightarrow> nat \<Rightarrow> string \<Rightarrow> environ \<Rightarrow> relay \<Rightarrow> unit prog" where
  \<open>dw_main json_file_path fr today_index day_name env tr =
     bind (dw_load_workouts json_file_path fr) (\<lambda>days_list.
     bind (dw_get_today_workout today_index days_list) (\<lambda>workout_today.
     bind (lift (py_get workout_today ''title'' (JStr ''Your Workout''))) (\<lambda>title.
     let subject = py_str title @ '' - '' @ day_name in
     bind (dw_build_workout_html workout_today) (\<lambda>html_body.
     let smtp_server = env ''SMTP_SERVER'';
         smtp_port = env ''SMTP_PORT'';
         email_address = env ''EMAIL_ADDRESS'';
         email_password = env ''EMAIL_PASSWORD'';
         recipient_email = env ''RECIPIENT_EMAIL''
     in if \<not> list_all env_truthy
               [smtp_server, smtp_port, email_address, email_password, recipient_email] then
          bind (logging ERROR ''One or more environment variables are missing.'') (\<lambda>_. py_exit 1)
        else
          dw_send_email tr subject html_body (the smtp_server) (the smtp_port)
            (the email_address) (the email_password) (the recipient_email)))))\<close>

section \<open>The long-running variant: \<^verbatim>\<open>workOutNotification.py\<close>\<close>

text \<open>
  The names \<^verbatim>\<open>load_dotenv\<close>, \<^verbatim>\<open>json\<close>, \<^verbatim>\<open>schedule\<close>, \<^verbatim>\<open>time\<close> and
  \<^verbatim>\<open>datetime.datetime\<close> are read as the imports in the comment at the head of the file
  bind them. The \<^verbatim>\<open>__main__\<close> block, which sends a fixed test message through the
  second function \<^verbatim>\<open>send_email\<close> of the file, is no part of the workout pipeline and is
  not modelled.
\<close>

subsection \<open>Module level: configuration and \<^verbatim>\<open>days_list\<close>\<close>

text \<open>The module's global names once the module body has run.\<close>

record globals =
  SMTP_SERVER :: string
  SMTP_PORT :: int
  EMAIL_ADDRESS :: string
  EMAIL_PASSWORD :: string
  RECIPIENT_EMAIL :: string
  days_list :: jval

text \<open>
  \<open>env\<close> is the environment after \<^verbatim>\<open>os.environ.clear()\<close> and \<^verbatim>\<open>load_dotenv()\<close>.
\<close>

definition wn_module :: "environ \<Rightarrow> string \<Rightarrow> file_read \<Rightarrow> globals prog" where
  \<open>wn_module env json_file_path fr =
     bind (logging INFO ''Daily Workout Scheduler script started.'') (\<lambda>_.
     let smtp_server = env ''SMTP_SERVER'';
         smtp_port = env ''SMTP_PORT'';
         email_address = env ''EMAIL_ADDRESS'';
         email_password = env ''EMAIL_PASSWORD'';
         recipient_email = env ''RECIPIENT_EMAIL'';
         missing_vars =
           map fst (filter (\<lambda>(var_name, var_value). \<not> env_truthy var_value)
             [(''SMTP_SERVER'', smtp_server), (''SMTP_PORT'', smtp_port),
              (''EMAIL_ADDRESS'', email_address), (''EMAIL_PASSWORD'', email_password),
              (''RECIPIENT_EMAIL'', recipient_email)])
     in if missing_vars \<noteq> [] then
          bind (logging ERROR (''Missing environment variables: '' @ join '', '' missing_vars @ ''.''))
            (\<lambda>_. py_exit 1)
        else
          bind (try_except (lift (py_int (the smtp_port)))
                  (\<lambda>e. case e of
                         ValueError t \<Rightarrow>
                           bind (logging ERROR (''Invalid SMTP_PORT value: '' @ the smtp_port))
                             (\<lambda>_. py_exit 1)
                       | _ \<Rightarrow> raise e)) (\<lambda>port.
          bind (try_except (lift fr)
                  (\<lambda>e. case e of
                         FileNotFoundError t \<Rightarrow>
                           bind (logging ERROR (''JSON file not found at '' @ json_file_path @ ''.''))
                             (\<lambda>_. py_exit 1)
                       | JSONDecodeError t \<Rightarrow>
                           bind (logging ERROR (''Error decoding JSON: '' @ t)) (\<lambda>_. py_exit 1)
                       | _ \<Rightarrow> raise e)) (\<lambda>workout_data.
          bind (lift (py_get workout_data ''days'' (JList []))) (\<lambda>days.
          bind (if \<not> truthy days then
                  bind (logging WARNING ''No workouts found in the JSON file.'') (\<lambda>_. ret (JList []))
                else ret days) (\<lambda>days.
          ret \<lparr>SMTP_SERVER = the smtp_server, SMTP_PORT = port,
               EMAIL_ADDRESS = the email_address, EMAIL_PASSWORD = the email_password,
               RECIPIENT_EMAIL = the recipient_email, days_list = days\<rparr>)))))\<close>

subsection \<open>\<^verbatim>\<open>build_workout_html\<close>\<close>

definition wn_head_pre :: string where
  \<open>wn_head_pre =
     ''    <html>\<newline>'' @
     ''    <head>\<newline>'' @
     ''        <style>\<newline>'' @
     ''            body {\<newline>'' @
     ''                font-family: Arial, sans-serif;\<newline>'' @
     ''            }\<newline>'' @
     ''            .day-title {\<newline>'' @
     ''                font-weight: bold;\<newline>'' @
     ''                font-size: 18px;\<newline>'' @
     ''                margin-bottom: 10px;\<newline>'' @
     ''            }\<newline>'' @
     ''            .exercise {\<newline>'' @
     ''                margin-bottom: 10px;\<newline>'' @
     ''            }\<newline>'' @
     ''            .exercise a {\<newline>'' @
     ''                text-decoration: none;\<newline>'' @
     ''                color: #0066cc;\<newline>'' @
     ''            }\<newline>'' @
     ''        </style>\<newline>'' @
     ''    </head>\<newline>'' @
     ''    <body>\<newline>'' @
     ''        <div class="day-title">''\<close>

definition wn_head_post :: string where
  \<open>wn_head_post =
     ''</div>\<newline>'' @
     ''    ''\<close>

definition wn_link_pre :: string where
  \<open>wn_link_pre =
     ''\<newline>'' @
     ''            <div class="exercise">\<newline>'' @
     ''                <p>\<newline>'' @
     ''                    <strong>\<newline>'' @
     ''                        <a href="''\<close>

definition wn_link_mid :: string where
  \<open>wn_link_mid =
     ''" target="_blank">''\<close>

definition wn_link_sets :: string where
  \<open>wn_link_sets =
     ''</a>\<newline>'' @
     ''                    </strong>\<newline>'' @
     ''                </p>\<newline>'' @
     ''                <p>Sets/Reps: ''\<close>

definition wn_link_rest :: string where
  \<open>wn_link_rest =
     ''</p>\<newline>'' @
     ''                <p>Rest: ''\<close>

definition wn_link_post :: string where
  \<open>wn_link_post =
     ''</p>\<newline>'' @
     ''            </div>\<newline>'' @
     ''            ''\<close>

definition wn_plain_pre :: string where
  \<open>wn_plain_pre =
     ''\<newline>'' @
     ''            <div class="exercise">\<newline>'' @
     ''                <p><strong>''\<close>

definition wn_plain_sets :: string where
  \<open>wn_plain_sets =
     ''</strong></p>\<newline>'' @
     ''                <p>Sets/Reps: ''\<close>

definition wn_plain_rest :: string where
  \<open>wn_plain_rest =
     ''</p>\<newline>'' @
     ''                <p>Rest: ''\<close>

definition wn_plain_post :: string where
  \<open>wn_plain_post =
     ''</p>\<newline>'' @
     ''            </div>\<newline>'' @
     ''            ''\<close>

definition wn_tail :: string where
  \<open>wn_tail =
     ''\<newline>'' @
     ''        <p><em>Tip:</em> Stay hydrated and track your progress. Enjoy your workout!</p>\<newline>'' @
     ''    </body>\<newline>'' @
     ''    </html>\<newline>'' @
     ''    ''\<close>

text \<open>
  The loop body appends one of two f-strings, with or without the hyperlink.
\<close>

definition wn_exercise_html :: "jval \<Rightarrow> exn + string" where
  \<open>wn_exercise_html ex =
     sbind (py_get ex ''name'' (JStr [])) (\<lambda>name.
     sbind (py_get ex ''sets'' (JStr [])) (\<lambda>sets.
     sbind (py_get ex ''rest'' (JStr [])) (\<lambda>rest.
     sbind (py_get ex ''url'' JNull) (\<lambda>url.
     if truthy url then
       Inr (wn_link_pre @ py_str url @ wn_link_mid @ py_str name @ wn_link_sets
              @ py_str sets @ wn_link_rest @ py_str rest @ wn_link_post)
     else
       Inr (wn_plain_pre @ py_str name @ wn_plain_sets
              @ py_str sets @ wn_plain_rest @ py_str rest @ wn_plain_post)))))\<close>

fun wn_loop :: "jval list \<Rightarrow> string \<Rightarrow> exn + string" where
  "wn_loop [] html_content = Inr html_content"
| "wn_loop (ex # exs) html_content =
     sbind (wn_exercise_html ex) (\<lambda>fragment. wn_loop exs (html_content @ fragment))"

definition wn_build_workout_html :: "jval \<Rightarrow> string prog" where
  \<open>wn_build_workout_html day_info =
     bind (lift (py_get day_info ''title'' (JStr ''Workout''))) (\<lambda>title.
     bind (lift (py_get day_info ''exercises'' (JList []))) (\<lambda>exercises.
     bind (lift (py_iter exercises)) (\<lambda>items.
     bind (lift (wn_loop items (wn_head_pre @ py_str title @ wn_head_post))) (\<lambda>html_content.
     ret (html_content @ wn_tail)))))\<close>

subsection \<open>\<^verbatim>\<open>get_today_workout\<close>\<close>

text \<open>\<open>today_index\<close> is what \<^verbatim>\<open>now().weekday()\<close> returned, 0 to 6.\<close>

definition wn_get_today_workout :: "globals \<Rightarrow> nat \<Rightarrow> jval prog" where
  \<open>wn_get_today_workout g today_index =
     bind (lift (py_len (days_list g))) (\<lambda>n.
     if today_index < n then lift (py_index (days_list g) today_index)
     else if truthy (days_list g) then lift (py_index (days_list g) 0)
     else ret (JObj []))\<close>

subsection \<open>\<^verbatim>\<open>send_daily_workout\<close>\<close>

definition wn_send_daily_workout :: "globals \<Rightarrow> nat \<Rightarrow> string \<Rightarrow> relay \<Rightarrow> unit prog" where
  \<open>wn_send_daily_workout g today_index day_name tr =
     bind (wn_get_today_workout g today_index) (\<lambda>workout_for_today.
     if \<not> truthy workout_for_today then logging WARNING ''No workout info for today.''
     else
       bind (lift (py_get workout_for_today ''title'' (JStr ''Your Workout''))) (\<lambda>title.
       let subject = py_str title @ '' - '' @ day_name in
       bind (wn_build_workout_html workout_for_today) (\<lambda>html_body.
       let msg = \<lparr>msg_subject = subject, msg_from = EMAIL_ADDRESS g, msg_to = RECIPIENT_EMAIL g,
                  msg_body = html_body, msg_subtype = ''html''\<rparr>
       in try_except
            (bind (with_SMTP tr (SMTP_SERVER g) (SMTP_PORT g)
                     (bind (smtp_op tr SStartTLS StartTLS) (\<lambda>_.
                      bind (smtp_op tr SLogin (Login (EMAIL_ADDRESS g) (EMAIL_PASSWORD g))) (\<lambda>_.
                      smtp_op tr SSendmail (Sendmail (EMAIL_ADDRESS g) (RECIPIENT_EMAIL g) msg))))) (\<lambda>_.
             logging INFO (''Workout email sent successfully to '' @ RECIPIENT_EMAIL g @ ''.'')))
            (\<lambda>e. if is_SMTPException e then
                   logging ERROR (''SMTP error when sending email: '' @ exn_text e)
                 else if is_Exception e then
                   logging ERROR (''Unexpected error: '' @ exn_text e)
                 else raise e))))\<close>

subsection \<open>\<^verbatim>\<open>main\<close>: the scheduler loop\<close>

text \<open>
  The loop \<^verbatim>\<open>while True: schedule.run_pending(); time.sleep(60)\<close> never returns. A run
  is observed over the polls of a finite list: for each poll, whether the
  \<^verbatim>\<open>schedule\<close> library finds the 06:00 job pending, what the clock says and how the
  relay behaves. An exception that leaves \<^verbatim>\<open>send_daily_workout\<close> leaves the loop.
\<close>

record poll =
  pending :: bool
  poll_index :: nat
  poll_day_name :: string
  poll_relay :: relay

fun wn_loop_polls :: "globals \<Rightarrow> poll list \<Rightarrow> unit prog" where
  "wn_loop_polls g [] = ret ()"
| "wn_loop_polls g (p # ps) =
     bind (if pending p
           then wn_send_daily_workout g (poll_index p) (poll_day_name p) (poll_relay p)
           else ret ()) (\<lambda>_.
     bind (emit (Sleep 60)) (\<lambda>_.
     wn_loop_polls g ps))"

definition wn_main :: "globals \<Rightarrow> poll list \<Rightarrow> unit prog" where
  \<open>wn_main g ps =
     bind (logging INFO ''Scheduling daily workout at 06:00. Now entering loop...'') (\<lambda>_.
     wn_loop_polls g ps)\<close>

section \<open>The data model of the specification, and example inputs\<close>

text \<open>
  A DayEntry is a mapping whose \<^verbatim>\<open>exercises\<close>, when present, is a sequence of mappings.
\<close>

fun is_dict :: "jval \<Rightarrow> bool" where
  "is_dict (JObj kvs) = True"
| "is_dict v = False"

definition day_entry :: "jval \<Rightarrow> bool" where
  \<open>day_entry d =
     (case d of
        JObj kvs \<Rightarrow>
          (case map_of kvs ''exercises'' of
             None \<Rightarrow> True
           | Some (JList exs) \<Rightarrow> list_all is_dict exs
           | Some v \<Rightarrow> False)
      | v \<Rightarrow> False)\<close>

text \<open>What \<^verbatim>\<open>m.get(k, d)\<close> returns on a mapping \<open>m\<close>.\<close>

definition dict_get :: "(string \<times> jval) list \<Rightarrow> string \<Rightarrow> jval \<Rightarrow> jval" where
  "dict_get kvs k d = (case map_of kvs k of None \<Rightarrow> d | Some v \<Rightarrow> v)"

text \<open>The hyperlink around an exercise name.\<close>

definition anchor_element :: "string \<Rightarrow> string \<Rightarrow> string" where
  \<open>anchor_element url name = ''<a href="'' @ url @ ''" target="_blank">'' @ name @ ''</a>''\<close>

definition squat :: jval where
  \<open>squat = JObj [(''name'', JStr ''Squat''), (''sets'', JStr ''5x5''), (''rest'', JStr ''90s''),
                 (''url'', JStr ''http://example.com/squat'')]\<close>

definition leg_day :: jval where
  \<open>leg_day = JObj [(''title'', JStr ''Leg Day''), (''exercises'', JList [squat])]\<close>


definition example_env :: "string \<Rightarrow> environ" where
  \<open>example_env port =
     [''SMTP_SERVER'' \<mapsto> ''smtp.example.com'', ''SMTP_PORT'' \<mapsto> port,
      ''EMAIL_ADDRESS'' \<mapsto> ''coach@example.com'', ''EMAIL_PASSWORD'' \<mapsto> ''secret'',
      ''RECIPIENT_EMAIL'' \<mapsto> ''me@example.com'']\<close>


definition relay_ok :: relay where
  "relay_ok = (\<lambda>st. None)"


text \<open>The document of the specification's end-to-end scenario.\<close>

definition example_doc :: "(string \<times> jval) list" where
  "example_doc = [(''days'', JList [leg_day])]"


text \<open>The events that are calls on the mail session.\<close>

fun is_network :: "event \<Rightarrow> bool" where
  "is_network (Log lvl t) = False"
| "is_network (Sleep n) = False"
| "is_network ev = True"

section \<open>Running the model: how each operation acts on the events so far\<close>

lemma ret_apply [simp]: "ret x s = (Inr x, s)"
  by (simp add: ret_def)

lemma raise_apply [simp]: "raise e s = (Inl e, s)"
  by (simp add: raise_def)

lemma lift_apply [simp]: "lift r s = (r, s)"
  by (simp add: lift_def)

lemma emit_apply [simp]: "emit ev s = (Inr (), s @ [ev])"
  by (simp add: emit_def)

lemma logging_apply [simp]: "logging lvl t s = (Inr (), s @ [Log lvl t])"
  by (simp add: logging_def)

lemma py_exit_apply [simp]: "py_exit n s = (Inl (SystemExit n), s)"
  by (simp add: py_exit_def)

lemma bind_Inr [simp]: "m s = (Inr x, s') \<Longrightarrow> bind m f s = f x s'"
  by (simp add: bind_def)

lemma bind_Inl [simp]: "m s = (Inl e, s') \<Longrightarrow> bind m f s = (Inl e, s')"
  by (simp add: bind_def)

lemma try_except_Inr [simp]: "m s = (Inr x, s') \<Longrightarrow> try_except m h s = (Inr x, s')"
  by (simp add: try_except_def)

lemma try_except_Inl [simp]: "m s = (Inl e, s') \<Longrightarrow> try_except m h s = h e s'"
  by (simp add: try_except_def)

lemma sbind_Inr [simp]: "sbind (Inr x) f = f x"
  by (simp add: sbind_def)

lemma sbind_Inl [simp]: "sbind (Inl e) f = Inl e"
  by (simp add: sbind_def)

section \<open>The Day Selector\<close>






section \<open>The HTML Renderer\<close>

subsection \<open>The loop over the exercises\<close>

lemma sublist_app_right: "sublist v ys \<Longrightarrow> sublist v (xs @ ys)"
  by (metis append_assoc sublist_def)

lemma sublist_app_left: "sublist v xs \<Longrightarrow> sublist v (xs @ ys)"
  by (metis append_assoc sublist_def)

lemma dw_loop_prefix: "dw_loop items h = Inr html \<Longrightarrow> prefix h html"
proof (induction items arbitrary: h)
  case Nil
  then show ?case by simp
next
  case (Cons ex exs)
  then obtain frag where "dw_loop exs (h @ frag) = Inr html"
    by (auto simp: sbind_def split: sum.splits)
  then have "prefix (h @ frag) html"
    by (rule Cons.IH)
  then show ?case
    by (rule append_prefixD)
qed

lemma wn_loop_prefix: "wn_loop items h = Inr html \<Longrightarrow> prefix h html"
proof (induction items arbitrary: h)
  case Nil
  then show ?case by simp
next
  case (Cons ex exs)
  then obtain frag where "wn_loop exs (h @ frag) = Inr html"
    by (auto simp: sbind_def split: sum.splits)
  then have "prefix (h @ frag) html"
    by (rule Cons.IH)
  then show ?case
    by (rule append_prefixD)
qed

text \<open>Every exercise visited leaves its fragment in the text the loop returns.\<close>

lemma dw_loop_fragment:
  "dw_loop items h = Inr html \<Longrightarrow> ex \<in> set items
   \<Longrightarrow> \<exists>frag. dw_exercise_html ex = Inr frag \<and> sublist frag html"
proof (induction items arbitrary: h)
  case Nil
  then show ?case by simp
next
  case (Cons x xs)
  from Cons.prems(1) obtain f where f: "dw_exercise_html x = Inr f"
    and rest: "dw_loop xs (h @ f) = Inr html"
    by (auto simp: sbind_def split: sum.splits)
  show ?case
  proof (cases "ex = x")
    case True
    from rest have "prefix (h @ f) html"
      by (rule dw_loop_prefix)
    then have "sublist f html"
      by (auto simp: prefix_def sublist_def)
    with f True show ?thesis by blast
  next
    case False
    with Cons.prems(2) have "ex \<in> set xs" by simp
    with rest show ?thesis by (rule Cons.IH)
  qed
qed

lemma wn_loop_fragment:
  "wn_loop items h = Inr html \<Longrightarrow> ex \<in> set items
   \<Longrightarrow> \<exists>frag. wn_exercise_html ex = Inr frag \<and> sublist frag html"
proof (induction items arbitrary: h)
  case Nil
  then show ?case by simp
next
  case (Cons x xs)
  from Cons.prems(1) obtain f where f: "wn_exercise_html x = Inr f"
    and rest: "wn_loop xs (h @ f) = Inr html"
    by (auto simp: sbind_def split: sum.splits)
  show ?case
  proof (cases "ex = x")
    case True
    from rest have "prefix (h @ f) html"
      by (rule wn_loop_prefix)
    then have "sublist f html"
      by (auto simp: prefix_def sublist_def)
    with f True show ?thesis by blast
  next
    case False
    with Cons.prems(2) have "ex \<in> set xs" by simp
    with rest show ?thesis by (rule Cons.IH)
  qed
qed

text \<open>On mappings the loop body does not raise, so the loop over mappings returns.\<close>

lemma dw_exercise_html_dict: "is_dict ex \<Longrightarrow> \<exists>frag. dw_exercise_html ex = Inr frag"
  by (cases ex) (simp_all add: dw_exercise_html_def Let_def)

lemma wn_exercise_html_dict: "is_dict ex \<Longrightarrow> \<exists>frag. wn_exercise_html ex = Inr frag"
  by (cases ex) (simp_all add: wn_exercise_html_def)

lemma dw_loop_dicts: "list_all is_dict items \<Longrightarrow> \<exists>html. dw_loop items h = Inr html"
proof (induction items arbitrary: h)
  case Nil
  then show ?case by simp
next
  case (Cons x xs)
  then obtain f where "dw_exercise_html x = Inr f"
    using dw_exercise_html_dict by auto
  with Cons show ?case by simp
qed

lemma wn_loop_dicts: "list_all is_dict items \<Longrightarrow> \<exists>html. wn_loop items h = Inr html"
proof (induction items arbitrary: h)
  case Nil
  then show ?case by simp
next
  case (Cons x xs)
  then obtain f where "wn_exercise_html x = Inr f"
    using wn_exercise_html_dict by auto
  with Cons show ?case by simp
qed

subsection \<open>The renderer as head, loop and tail\<close>

text \<open>The values \<^verbatim>\<open>day_info.get("title", "Workout")\<close> and \<^verbatim>\<open>day_info.get("exercises", [])\<close>.\<close>

lemma dw_build_workout_html_run:
  "dw_build_workout_html (JObj d) s =
     (let title = (case map_of d ''title'' of None \<Rightarrow> JStr ''Workout'' | Some v \<Rightarrow> v);
          exercises = (case map_of d ''exercises'' of None \<Rightarrow> JList [] | Some v \<Rightarrow> v);
          s' = s @ [Log INFO (''Building HTML for: '' @ py_str title)]
      in case sbind (py_iter exercises)
                (\<lambda>items. dw_loop items (dw_head_pre @ py_str title @ dw_head_post)) of
           Inl e \<Rightarrow> (Inl e, s')
         | Inr h \<Rightarrow> (Inr (h @ dw_tail), s'))"
  by (simp add: dw_build_workout_html_def Let_def bind_def sbind_def split: sum.splits)

lemma wn_build_workout_html_run:
  "wn_build_workout_html (JObj d) s =
     (let title = (case map_of d ''title'' of None \<Rightarrow> JStr ''Workout'' | Some v \<Rightarrow> v);
          exercises = (case map_of d ''exercises'' of None \<Rightarrow> JList [] | Some v \<Rightarrow> v)
      in case sbind (py_iter exercises)
                (\<lambda>items. wn_loop items (wn_head_pre @ py_str title @ wn_head_post)) of
           Inl e \<Rightarrow> (Inl e, s)
         | Inr h \<Rightarrow> (Inr (h @ wn_tail), s))"
  by (simp add: wn_build_workout_html_def Let_def bind_def sbind_def split: sum.splits)

subsection \<open>Determinism\<close>



subsection \<open>Missing fields\<close>

lemma day_entry_items:
  assumes "day_entry (JObj d)"
  shows "\<exists>items. py_iter (case map_of d ''exercises'' of None \<Rightarrow> JList [] | Some v \<Rightarrow> v) = Inr items
           \<and> list_all is_dict items"
  using assms
  by (auto simp: day_entry_def split: option.splits jval.splits)

lemma dw_build_workout_html_returns:
  assumes "day_entry (JObj d)"
  shows "\<exists>html. fst (dw_build_workout_html (JObj d) s) = Inr html"
proof -
  from assms obtain items
    where items: "py_iter (case map_of d ''exercises'' of None \<Rightarrow> JList [] | Some v \<Rightarrow> v) = Inr items"
      and dicts: "list_all is_dict items"
    using day_entry_items by blast
  from dicts obtain h
    where "dw_loop items
             (dw_head_pre @ py_str (case map_of d ''title'' of None \<Rightarrow> JStr ''Workout'' | Some v \<Rightarrow> v)
                @ dw_head_post) = Inr h"
    using dw_loop_dicts by blast
  with items show ?thesis
    by (simp add: dw_build_workout_html_run Let_def)
qed

lemma wn_build_workout_html_returns:
  assumes "day_entry (JObj d)"
  shows "\<exists>html. fst (wn_build_workout_html (JObj d) s) = Inr html"
proof -
  from assms obtain items
    where items: "py_iter (case map_of d ''exercises'' of None \<Rightarrow> JList [] | Some v \<Rightarrow> v) = Inr items"
      and dicts: "list_all is_dict items"
    using day_entry_items by blast
  from dicts obtain h
    where "wn_loop items
             (wn_head_pre @ py_str (case map_of d ''title'' of None \<Rightarrow> JStr ''Workout'' | Some v \<Rightarrow> v)
                @ wn_head_post) = Inr h"
    using wn_loop_dicts by blast
  with items show ?thesis
    by (simp add: wn_build_workout_html_run Let_def)
qed

text \<open>
  C3, as amended. On a DayEntry neither renderer raises. An exercise without
  \<^verbatim>\<open>sets\<close> or without \<^verbatim>\<open>rest\<close> renders as the same exercise with the empty string
  for that field. A DayEntry without \<^verbatim>\<open>title\<close> renders as the same entry with the
  title \<^verbatim>\<open>Workout\<close>, the placeholder both renderers give \<^verbatim>\<open>get\<close> as the default.
\<close>

theorem build_workout_html_missing_fields:
  assumes "day_entry (JObj d)"
  shows "(\<exists>html. fst (dw_build_workout_html (JObj d) s) = Inr html)
       \<and> (\<exists>html. fst (wn_build_workout_html (JObj d) s) = Inr html)
       \<and> (map_of d ''title'' = None \<longrightarrow>
            dw_build_workout_html (JObj d) s
              = dw_build_workout_html (JObj ((''title'', JStr ''Workout'') # d)) s
          \<and> wn_build_workout_html (JObj d) s
              = wn_build_workout_html (JObj ((''title'', JStr ''Workout'') # d)) s)
       \<and> (map_of ex ''sets'' = None \<longrightarrow>
            dw_exercise_html (JObj ex) = dw_exercise_html (JObj ((''sets'', JStr []) # ex))
          \<and> wn_exercise_html (JObj ex) = wn_exercise_html (JObj ((''sets'', JStr []) # ex)))
       \<and> (map_of ex ''rest'' = None \<longrightarrow>
            dw_exercise_html (JObj ex) = dw_exercise_html (JObj ((''rest'', JStr []) # ex))
          \<and> wn_exercise_html (JObj ex) = wn_exercise_html (JObj ((''rest'', JStr []) # ex)))"
proof -
  have title: "map_of d ''title'' = None \<longrightarrow>
      dw_build_workout_html (JObj d) s
        = dw_build_workout_html (JObj ((''title'', JStr ''Workout'') # d)) s
    \<and> wn_build_workout_html (JObj d) s
        = wn_build_workout_html (JObj ((''title'', JStr ''Workout'') # d)) s"
    by (simp add: dw_build_workout_html_run wn_build_workout_html_run)
  have sets: "map_of ex ''sets'' = None \<longrightarrow>
      dw_exercise_html (JObj ex) = dw_exercise_html (JObj ((''sets'', JStr []) # ex))
    \<and> wn_exercise_html (JObj ex) = wn_exercise_html (JObj ((''sets'', JStr []) # ex))"
    by (simp add: dw_exercise_html_def wn_exercise_html_def)
  have rest: "map_of ex ''rest'' = None \<longrightarrow>
      dw_exercise_html (JObj ex) = dw_exercise_html (JObj ((''rest'', JStr []) # ex))
    \<and> wn_exercise_html (JObj ex) = wn_exercise_html (JObj ((''rest'', JStr []) # ex))"
    by (simp add: dw_exercise_html_def wn_exercise_html_def)
  from assms title sets rest show ?thesis
    using dw_build_workout_html_returns wn_build_workout_html_returns by blast
qed

theorem build_workout_html_missing_fields_witness:
  "day_entry (JObj [(''exercises'', JList [JObj [(''name'', JStr ''Plank'')]])])
   \<and> dw_build_workout_html (JObj [(''exercises'', JList [JObj [(''name'', JStr ''Plank'')]])]) []
       = dw_build_workout_html
           (JObj [(''title'', JStr ''Workout''),
                  (''exercises'', JList [JObj [(''name'', JStr ''Plank'')]])]) []
   \<and> dw_exercise_html (JObj [(''name'', JStr ''Plank'')])
       = dw_exercise_html (JObj [(''sets'', JStr []), (''name'', JStr ''Plank'')])
   \<and> wn_exercise_html (JObj [(''name'', JStr ''Plank'')])
       = wn_exercise_html (JObj [(''rest'', JStr []), (''name'', JStr ''Plank'')])"
proof -
  have shape: "day_entry (JObj [(''exercises'', JList [JObj [(''name'', JStr ''Plank'')]])])"
    by (simp add: day_entry_def)
  have absent: "map_of [(''exercises'', JList [JObj [(''name'', JStr ''Plank'')]])] ''title'' = None"
    "map_of [(''name'', JStr ''Plank'')] ''sets'' = None"
    "map_of [(''name'', JStr ''Plank'')] ''rest'' = None"
    by simp_all
  from shape absent show ?thesis
    using build_workout_html_missing_fields
            [OF shape, of "[]" "[(''name'', JStr ''Plank'')]"]
    by blast
qed

text \<open>
  The claim as stated fails for \<^verbatim>\<open>title\<close>: without a title the renderers do not
  substitute the empty string.
\<close>

theorem build_workout_html_missing_title_counterexample:
  "fst (dw_build_workout_html (JObj [(''exercises'', JList [])]) []) \<noteq> fst (dw_build_workout_html (JObj [(''title'', JStr []), (''exercises'', JList [])]) [])
   \<and> fst (wn_build_workout_html (JObj [(''exercises'', JList [])]) []) \<noteq> fst (wn_build_workout_html (JObj [(''title'', JStr []), (''exercises'', JList [])]) [])
   \<and> fst (dw_build_workout_html (JObj [(''exercises'', JList [])]) [])
       = Inr (dw_head_pre @ ''Workout'' @ dw_head_post @ dw_tail)
   \<and> fst (wn_build_workout_html (JObj [(''exercises'', JList [])]) [])
       = Inr (wn_head_pre @ ''Workout'' @ wn_head_post @ wn_tail)"
  by (simp add: dw_build_workout_html_run wn_build_workout_html_run dw_head_post_def wn_head_post_def)



subsection \<open>The fragment of one exercise\<close>

lemma py_get_dict: "py_get (JObj kvs) k d = Inr (dict_get kvs k d)"
  by (simp add: dict_get_def)

lemma dw_exercise_html_dict_eq:
  \<open>dw_exercise_html (JObj ex) =
     Inr (dw_exercise_pre
          @ (if truthy (dict_get ex ''url'' (JStr []))
             then anchor_element (py_str (dict_get ex ''url'' (JStr [])))
                    (py_str (dict_get ex ''name'' (JStr ''Unknown Exercise'')))
             else py_str (dict_get ex ''name'' (JStr ''Unknown Exercise'')))
          @ dw_exercise_sets @ py_str (dict_get ex ''sets'' (JStr []))
          @ dw_exercise_rest @ py_str (dict_get ex ''rest'' (JStr []))
          @ dw_exercise_post)\<close>
  by (simp add: dw_exercise_html_def dict_get_def anchor_element_def)

text \<open>
  In the long-running renderer the hyperlink sits on a line of its own: the text before
  it ends with the opening of the anchor and the text after it starts with its end.
\<close>

lemma wn_link_anchor:
  \<open>wn_link_pre @ u @ wn_link_mid @ n @ wn_link_sets @ rest =
     (''\<newline>'' @
      ''            <div class="exercise">\<newline>'' @
      ''                <p>\<newline>'' @
      ''                    <strong>\<newline>'' @
      ''                        '')
     @ anchor_element u n
     @ (''\<newline>'' @
        ''                    </strong>\<newline>'' @
        ''                </p>\<newline>'' @
        ''                <p>Sets/Reps: '' @ rest)\<close>
  by (simp add: wn_link_pre_def wn_link_mid_def wn_link_sets_def anchor_element_def)

lemma wn_exercise_html_dict_eq:
  \<open>wn_exercise_html (JObj ex) =
     Inr (if truthy (dict_get ex ''url'' JNull)
          then wn_link_pre @ py_str (dict_get ex ''url'' JNull) @ wn_link_mid
               @ py_str (dict_get ex ''name'' (JStr [])) @ wn_link_sets
               @ py_str (dict_get ex ''sets'' (JStr [])) @ wn_link_rest
               @ py_str (dict_get ex ''rest'' (JStr [])) @ wn_link_post
          else wn_plain_pre @ py_str (dict_get ex ''name'' (JStr [])) @ wn_plain_sets
               @ py_str (dict_get ex ''sets'' (JStr [])) @ wn_plain_rest
               @ py_str (dict_get ex ''rest'' (JStr [])) @ wn_plain_post)\<close>
  by (simp add: wn_exercise_html_def dict_get_def)

lemma sublist_chain:
  "sublist a (p1 @ a @ x1)"
  "sublist b (p1 @ a @ p2 @ b @ x2)"
  "sublist c (p1 @ a @ p2 @ b @ p3 @ c @ x3)"
  "sublist d (p1 @ a @ p2 @ b @ p3 @ c @ p4 @ d @ x4)"
proof -
  show "sublist a (p1 @ a @ x1)"
    by (rule sublist_appendI)
  have "sublist b ((p1 @ a @ p2) @ b @ x2)"
    by (rule sublist_appendI)
  then show "sublist b (p1 @ a @ p2 @ b @ x2)"
    by simp
  have "sublist c ((p1 @ a @ p2 @ b @ p3) @ c @ x3)"
    by (rule sublist_appendI)
  then show "sublist c (p1 @ a @ p2 @ b @ p3 @ c @ x3)"
    by simp
  have "sublist d ((p1 @ a @ p2 @ b @ p3 @ c @ p4) @ d @ x4)"
    by (rule sublist_appendI)
  then show "sublist d (p1 @ a @ p2 @ b @ p3 @ c @ p4 @ d @ x4)"
    by simp
qed

lemma sublist_anchor_element:
  "sublist u (anchor_element u n)" "sublist n (anchor_element u n)"
  unfolding anchor_element_def
  by (rule sublist_chain)+

lemma sublist_in_middle: "sublist v m \<Longrightarrow> sublist v (p @ m @ x)"
  by (metis append_assoc sublist_def)

text \<open>A string value of the exercise is a substring of the fragment.\<close>

lemma dw_exercise_html_verbatim:
  assumes "map_of ex k = Some (JStr v)" and "k \<in> {''name'', ''sets'', ''rest'', ''url''}"
  shows "\<exists>frag. dw_exercise_html (JObj ex) = Inr frag \<and> sublist v frag"
proof -
  from assms(1) have get: "dict_get ex k d = JStr v" for d
    by (simp add: dict_get_def)
  consider (name) "k = ''name''" | (sets) "k = ''sets''" | (rest) "k = ''rest''" | (url) "k = ''url''"
    using assms(2) by blast
  then show ?thesis
  proof cases
    case name
    with get [of "JStr ''Unknown Exercise''"] show ?thesis
      by (simp add: dw_exercise_html_dict_eq sublist_in_middle sublist_anchor_element)
  next
    case sets
    with get [of "JStr []"] show ?thesis
      by (simp add: dw_exercise_html_dict_eq sublist_chain)
  next
    case rest
    with get [of "JStr []"] show ?thesis
      by (simp add: dw_exercise_html_dict_eq sublist_chain)
  next
    case url
    with get [of "JStr []"] show ?thesis
      by (simp add: dw_exercise_html_dict_eq sublist_in_middle sublist_anchor_element)
  qed
qed

lemma wn_exercise_html_verbatim:
  assumes "map_of ex k = Some (JStr v)" and "k \<in> {''name'', ''sets'', ''rest'', ''url''}"
  shows "\<exists>frag. wn_exercise_html (JObj ex) = Inr frag \<and> sublist v frag"
proof -
  from assms(1) have get: "dict_get ex k d = JStr v" for d
    by (simp add: dict_get_def)
  consider (name) "k = ''name''" | (sets) "k = ''sets''" | (rest) "k = ''rest''" | (url) "k = ''url''"
    using assms(2) by blast
  then show ?thesis
  proof cases
    case name
    with get [of "JStr []"] show ?thesis
      by (simp add: wn_exercise_html_dict_eq sublist_chain)
  next
    case sets
    with get [of "JStr []"] show ?thesis
      by (simp add: wn_exercise_html_dict_eq sublist_chain)
  next
    case rest
    with get [of "JStr []"] show ?thesis
      by (simp add: wn_exercise_html_dict_eq sublist_chain)
  next
    case url
    with get [of JNull] show ?thesis
      by (simp add: wn_exercise_html_dict_eq sublist_chain)
  qed
qed

subsection \<open>No escaping\<close>

lemma sublist_trans: "sublist xs ys \<Longrightarrow> sublist ys zs \<Longrightarrow> sublist xs zs"
  by (metis append_assoc sublist_def)

text \<open>
  C9. Neither renderer escapes anything. For a DayEntry, a title that is a string, and the
  \<^verbatim>\<open>name\<close>, \<^verbatim>\<open>sets\<close>, \<^verbatim>\<open>rest\<close> and \<^verbatim>\<open>url\<close> of each exercise that are strings, occur
  character for character in the HTML returned, whatever characters they hold.
\<close>

theorem build_workout_html_verbatim:
  assumes "day_entry (JObj d)"
  shows "\<exists>hd hw.
           fst (dw_build_workout_html (JObj d) s) = Inr hd
         \<and> fst (wn_build_workout_html (JObj d) s) = Inr hw
         \<and> (\<forall>t. map_of d ''title'' = Some (JStr t) \<longrightarrow> sublist t hd \<and> sublist t hw)
         \<and> (\<forall>exs ex k v.
               map_of d ''exercises'' = Some (JList exs) \<and> JObj ex \<in> set exs
               \<and> k \<in> {''name'', ''sets'', ''rest'', ''url''} \<and> map_of ex k = Some (JStr v)
               \<longrightarrow> sublist v hd \<and> sublist v hw)"
proof -
  define title where "title = py_str (dict_get d ''title'' (JStr ''Workout''))"
  define exercises where "exercises = dict_get d ''exercises'' (JList [])"
  from assms obtain items where items: "py_iter exercises = Inr items"
    and dicts: "list_all is_dict items"
    using day_entry_items unfolding exercises_def dict_get_def by blast
  from dicts obtain bd bw
    where bd: "dw_loop items (dw_head_pre @ title @ dw_head_post) = Inr bd"
      and bw: "wn_loop items (wn_head_pre @ title @ wn_head_post) = Inr bw"
    using dw_loop_dicts wn_loop_dicts by blast
  have rd: "fst (dw_build_workout_html (JObj d) s) = Inr (bd @ dw_tail)"
    using items bd
    by (simp add: dw_build_workout_html_run Let_def title_def exercises_def dict_get_def)
  have rw: "fst (wn_build_workout_html (JObj d) s) = Inr (bw @ wn_tail)"
    using items bw
    by (simp add: wn_build_workout_html_run Let_def title_def exercises_def dict_get_def)
  have "sublist title bd"
    using dw_loop_prefix [OF bd] by (auto simp: prefix_def sublist_chain)
  moreover have "sublist title bw"
    using wn_loop_prefix [OF bw] by (auto simp: prefix_def sublist_chain)
  ultimately have titles:
    "map_of d ''title'' = Some (JStr t) \<longrightarrow> sublist t (bd @ dw_tail) \<and> sublist t (bw @ wn_tail)" for t
    by (auto simp: title_def dict_get_def intro: sublist_app_left)
  have strs: "sublist v (bd @ dw_tail) \<and> sublist v (bw @ wn_tail)"
    if exs: "map_of d ''exercises'' = Some (JList exs)" and mem: "JObj ex \<in> set exs"
      and k: "k \<in> {''name'', ''sets'', ''rest'', ''url''}" and v: "map_of ex k = Some (JStr v)"
    for exs ex k v
  proof -
    from exs items have "items = exs"
      by (simp add: exercises_def dict_get_def)
    with mem have mem': "JObj ex \<in> set items"
      by simp
    obtain fd where fd: "dw_exercise_html (JObj ex) = Inr fd" "sublist fd bd"
      using dw_loop_fragment [OF bd mem'] by blast
    obtain fw where fw: "wn_exercise_html (JObj ex) = Inr fw" "sublist fw bw"
      using wn_loop_fragment [OF bw mem'] by blast
    from dw_exercise_html_verbatim [OF v k] fd(1) have "sublist v fd"
      by simp
    then have "sublist v bd"
      using fd(2) by (rule sublist_trans)
    moreover from wn_exercise_html_verbatim [OF v k] fw(1) have "sublist v fw"
      by simp
    then have "sublist v bw"
      using fw(2) by (rule sublist_trans)
    ultimately show ?thesis
      by (simp add: sublist_app_left)
  qed
  from rd rw titles strs show ?thesis
    by blast
qed

theorem build_workout_html_verbatim_witness:
  \<open>day_entry (JObj [(''title'', JStr ''<b>Legs</b> & "core"''),
                    (''exercises'', JList [JObj [(''name'', JStr ''<script>alert(1)</script>'')]])])
   \<and> (\<exists>hd hw.
         fst (dw_build_workout_html
                (JObj [(''title'', JStr ''<b>Legs</b> & "core"''),
                       (''exercises'', JList [JObj [(''name'', JStr ''<script>alert(1)</script>'')]])])
                []) = Inr hd
       \<and> fst (wn_build_workout_html
                (JObj [(''title'', JStr ''<b>Legs</b> & "core"''),
                       (''exercises'', JList [JObj [(''name'', JStr ''<script>alert(1)</script>'')]])])
                []) = Inr hw
       \<and> sublist ''<b>Legs</b> & "core"'' hd \<and> sublist ''<b>Legs</b> & "core"'' hw
       \<and> sublist ''<script>alert(1)</script>'' hd \<and> sublist ''<script>alert(1)</script>'' hw)\<close>
proof -
  define d where \<open>d = [(''title'', JStr ''<b>Legs</b> & "core"''),
                       (''exercises'', JList [JObj [(''name'', JStr ''<script>alert(1)</script>'')]])]\<close>
  have shape: "day_entry (JObj d)"
    by (simp add: day_entry_def d_def)
  have title: \<open>map_of d ''title'' = Some (JStr ''<b>Legs</b> & "core"'')\<close>
    by (simp add: d_def)
  have ex: "map_of d ''exercises'' = Some (JList [JObj [(''name'', JStr ''<script>alert(1)</script>'')]])
          \<and> JObj [(''name'', JStr ''<script>alert(1)</script>'')]
              \<in> set [JObj [(''name'', JStr ''<script>alert(1)</script>'')]]
          \<and> ''name'' \<in> {''name'', ''sets'', ''rest'', ''url''}
          \<and> map_of [(''name'', JStr ''<script>alert(1)</script>'')] ''name''
              = Some (JStr ''<script>alert(1)</script>'')"
    by (simp add: d_def)
  from build_workout_html_verbatim [OF shape, of "[]"] title ex shape show ?thesis
    unfolding d_def by blast
qed

subsection \<open>Hyperlinks\<close>

text \<open>Where the opening of an anchor can occur in a concatenation.\<close>

lemma no_anchor_append:
  assumes "\<not> sublist ''<a'' xs" and "\<not> sublist ''<a'' ys" and "xs = [] \<or> last xs \<noteq> CHR ''<''"
  shows "\<not> sublist ''<a'' (xs @ ys)"
proof
  assume "sublist ''<a'' (xs @ ys)"
  with assms(1,2) obtain xs1 xs2
    where split: "''<a'' = xs1 @ xs2" and suf: "suffix xs1 xs" and pre: "prefix xs2 ys"
    unfolding sublist_append by blast
  from split consider "xs1 = []" | "xs1 = ''<''" | "xs1 = ''<a''"
    by (auto simp: Cons_eq_append_conv)
  then show False
  proof cases
    case 1
    with split pre assms(2) show False by auto
  next
    case 2
    with suf assms(3) show False
      by (auto simp: suffix_def)
  next
    case 3
    with suf assms(1) show False by auto
  qed
qed

lemma no_anchor_value:
  assumes "CHR ''<'' \<notin> set xs"
  shows "\<not> sublist ''<a'' xs" and "xs = [] \<or> last xs \<noteq> CHR ''<''"
proof -
  show "\<not> sublist ''<a'' xs"
    using assms set_mono_sublist by fastforce
  show "xs = [] \<or> last xs \<noteq> CHR ''<''"
    using assms last_in_set by fastforce
qed

lemma no_anchor_plain:
  assumes p0: "\<not> sublist ''<a'' p0" "p0 = [] \<or> last p0 \<noteq> CHR ''<''"
    and p1: "\<not> sublist ''<a'' p1" "p1 = [] \<or> last p1 \<noteq> CHR ''<''"
    and p2: "\<not> sublist ''<a'' p2" "p2 = [] \<or> last p2 \<noteq> CHR ''<''"
    and p3: "\<not> sublist ''<a'' p3"
    and n: "CHR ''<'' \<notin> set n" and s: "CHR ''<'' \<notin> set s" and r: "CHR ''<'' \<notin> set r"
  shows "\<not> sublist ''<a'' (p0 @ n @ p1 @ s @ p2 @ r @ p3)"
proof -
  have 1: "\<not> sublist ''<a'' (r @ p3)"
    by (rule no_anchor_append [OF no_anchor_value(1) [OF r] p3 no_anchor_value(2) [OF r]])
  have 2: "\<not> sublist ''<a'' (p2 @ r @ p3)"
    by (rule no_anchor_append [OF p2(1) 1 p2(2)])
  have 3: "\<not> sublist ''<a'' (s @ p2 @ r @ p3)"
    by (rule no_anchor_append [OF no_anchor_value(1) [OF s] 2 no_anchor_value(2) [OF s]])
  have 4: "\<not> sublist ''<a'' (p1 @ s @ p2 @ r @ p3)"
    by (rule no_anchor_append [OF p1(1) 3 p1(2)])
  have 5: "\<not> sublist ''<a'' (n @ p1 @ s @ p2 @ r @ p3)"
    by (rule no_anchor_append [OF no_anchor_value(1) [OF n] 4 no_anchor_value(2) [OF n]])
  show ?thesis
    by (rule no_anchor_append [OF p0(1) 5 p0(2)])
qed

lemma dw_plain_template:
  "\<not> sublist ''<a'' dw_exercise_pre" "dw_exercise_pre = [] \<or> last dw_exercise_pre \<noteq> CHR ''<''"
  "\<not> sublist ''<a'' dw_exercise_sets" "dw_exercise_sets = [] \<or> last dw_exercise_sets \<noteq> CHR ''<''"
  "\<not> sublist ''<a'' dw_exercise_rest" "dw_exercise_rest = [] \<or> last dw_exercise_rest \<noteq> CHR ''<''"
  "\<not> sublist ''<a'' dw_exercise_post"
  by (simp_all add: dw_exercise_pre_def dw_exercise_sets_def dw_exercise_rest_def
        dw_exercise_post_def sublist_code)

lemma wn_plain_template:
  "\<not> sublist ''<a'' wn_plain_pre" "wn_plain_pre = [] \<or> last wn_plain_pre \<noteq> CHR ''<''"
  "\<not> sublist ''<a'' wn_plain_sets" "wn_plain_sets = [] \<or> last wn_plain_sets \<noteq> CHR ''<''"
  "\<not> sublist ''<a'' wn_plain_rest" "wn_plain_rest = [] \<or> last wn_plain_rest \<noteq> CHR ''<''"
  "\<not> sublist ''<a'' wn_plain_post"
  by (simp_all add: wn_plain_pre_def wn_plain_sets_def wn_plain_rest_def
        wn_plain_post_def sublist_code)

text \<open>
  C8, as amended. For every exercise of a rendered DayEntry, the fragment of the exercise
  is part of the HTML returned. When \<^verbatim>\<open>url\<close> is present and true (a non-empty string),
  the fragment contains the anchor element with that url as \<^verbatim>\<open>href\<close> around the
  exercise name. When \<^verbatim>\<open>url\<close> is absent, or present but false (the empty string,
  \<^verbatim>\<open>null\<close>), the fragment is the fixed template around the plain name, and it holds
  no opening of an anchor unless the name, sets or rest text brings one.
\<close>

theorem exercise_html_hyperlink:
  assumes "day_entry (JObj d)" and "map_of d ''exercises'' = Some (JList exs)"
    and "JObj ex \<in> set exs"
  shows "\<exists>fd fw hd hw.
           dw_exercise_html (JObj ex) = Inr fd \<and> wn_exercise_html (JObj ex) = Inr fw
         \<and> fst (dw_build_workout_html (JObj d) s) = Inr hd \<and> sublist fd hd
         \<and> fst (wn_build_workout_html (JObj d) s) = Inr hw \<and> sublist fw hw
         \<and> (\<forall>u. map_of ex ''url'' = Some u \<and> truthy u \<longrightarrow>
               sublist (anchor_element (py_str u)
                          (py_str (dict_get ex ''name'' (JStr ''Unknown Exercise'')))) fd
             \<and> sublist (anchor_element (py_str u) (py_str (dict_get ex ''name'' (JStr [])))) fw)
         \<and> (map_of ex ''url'' = None \<or> (\<exists>u. map_of ex ''url'' = Some u \<and> \<not> truthy u) \<longrightarrow>
               fd = dw_exercise_pre @ py_str (dict_get ex ''name'' (JStr ''Unknown Exercise''))
                      @ dw_exercise_sets @ py_str (dict_get ex ''sets'' (JStr []))
                      @ dw_exercise_rest @ py_str (dict_get ex ''rest'' (JStr []))
                      @ dw_exercise_post
             \<and> fw = wn_plain_pre @ py_str (dict_get ex ''name'' (JStr []))
                      @ wn_plain_sets @ py_str (dict_get ex ''sets'' (JStr []))
                      @ wn_plain_rest @ py_str (dict_get ex ''rest'' (JStr []))
                      @ wn_plain_post
             \<and> (CHR ''<'' \<notin> set (py_str (dict_get ex ''name'' (JStr ''Unknown Exercise'')))
                  \<and> CHR ''<'' \<notin> set (py_str (dict_get ex ''sets'' (JStr [])))
                  \<and> CHR ''<'' \<notin> set (py_str (dict_get ex ''rest'' (JStr [])))
                  \<longrightarrow> \<not> sublist ''<a'' fd)
             \<and> (CHR ''<'' \<notin> set (py_str (dict_get ex ''name'' (JStr [])))
                  \<and> CHR ''<'' \<notin> set (py_str (dict_get ex ''sets'' (JStr [])))
                  \<and> CHR ''<'' \<notin> set (py_str (dict_get ex ''rest'' (JStr [])))
                  \<longrightarrow> \<not> sublist ''<a'' fw))"
proof -
  define title where "title = py_str (dict_get d ''title'' (JStr ''Workout''))"
  from assms(1,2) have dicts: "list_all is_dict exs"
    by (simp add: day_entry_def)
  from dicts obtain bd bw
    where bd: "dw_loop exs (dw_head_pre @ title @ dw_head_post) = Inr bd"
      and bw: "wn_loop exs (wn_head_pre @ title @ wn_head_post) = Inr bw"
    using dw_loop_dicts wn_loop_dicts by blast
  have rd: "fst (dw_build_workout_html (JObj d) s) = Inr (bd @ dw_tail)"
    using assms(2) bd
    by (simp add: dw_build_workout_html_run Let_def title_def dict_get_def)
  have rw: "fst (wn_build_workout_html (JObj d) s) = Inr (bw @ wn_tail)"
    using assms(2) bw
    by (simp add: wn_build_workout_html_run Let_def title_def dict_get_def)
  obtain fd where fd: "dw_exercise_html (JObj ex) = Inr fd" "sublist fd bd"
    using dw_loop_fragment [OF bd assms(3)] by blast
  obtain fw where fw: "wn_exercise_html (JObj ex) = Inr fw" "sublist fw bw"
    using wn_loop_fragment [OF bw assms(3)] by blast
  have in_d: "sublist fd (bd @ dw_tail)"
    using fd(2) by (rule sublist_app_left)
  have in_w: "sublist fw (bw @ wn_tail)"
    using fw(2) by (rule sublist_app_left)
  have link: "sublist (anchor_element (py_str u)
                         (py_str (dict_get ex ''name'' (JStr ''Unknown Exercise'')))) fd
            \<and> sublist (anchor_element (py_str u) (py_str (dict_get ex ''name'' (JStr [])))) fw"
    if "map_of ex ''url'' = Some u \<and> truthy u" for u
  proof -
    from that have u: "dict_get ex ''url'' dflt = u" "truthy u" for dflt
      by (simp_all add: dict_get_def)
    from fd(1) u have "fd = dw_exercise_pre
        @ anchor_element (py_str u) (py_str (dict_get ex ''name'' (JStr ''Unknown Exercise'')))
        @ dw_exercise_sets @ py_str (dict_get ex ''sets'' (JStr []))
        @ dw_exercise_rest @ py_str (dict_get ex ''rest'' (JStr [])) @ dw_exercise_post"
      by (simp add: dw_exercise_html_dict_eq)
    then have one: "sublist (anchor_element (py_str u)
                              (py_str (dict_get ex ''name'' (JStr ''Unknown Exercise'')))) fd"
      by (simp add: sublist_chain)
    from fw(1) u have "fw = wn_link_pre @ py_str u @ wn_link_mid
        @ py_str (dict_get ex ''name'' (JStr [])) @ wn_link_sets
        @ (py_str (dict_get ex ''sets'' (JStr [])) @ wn_link_rest
           @ py_str (dict_get ex ''rest'' (JStr [])) @ wn_link_post)"
      by (simp add: wn_exercise_html_dict_eq)
    then have "sublist (anchor_element (py_str u) (py_str (dict_get ex ''name'' (JStr [])))) fw"
      unfolding wn_link_anchor by (simp only: sublist_appendI)
    with one show ?thesis
      by simp
  qed
  have plain:
    "fd = dw_exercise_pre @ py_str (dict_get ex ''name'' (JStr ''Unknown Exercise''))
            @ dw_exercise_sets @ py_str (dict_get ex ''sets'' (JStr []))
            @ dw_exercise_rest @ py_str (dict_get ex ''rest'' (JStr []))
            @ dw_exercise_post
     \<and> fw = wn_plain_pre @ py_str (dict_get ex ''name'' (JStr []))
            @ wn_plain_sets @ py_str (dict_get ex ''sets'' (JStr []))
            @ wn_plain_rest @ py_str (dict_get ex ''rest'' (JStr []))
            @ wn_plain_post"
    if "map_of ex ''url'' = None \<or> (\<exists>u. map_of ex ''url'' = Some u \<and> \<not> truthy u)"
  proof -
    from that have "\<not> truthy (dict_get ex ''url'' (JStr []))" "\<not> truthy (dict_get ex ''url'' JNull)"
      by (auto simp: dict_get_def)
    with fd(1) fw(1) show ?thesis
      by (simp add: dw_exercise_html_dict_eq wn_exercise_html_dict_eq)
  qed
  have clean_d: "\<not> sublist ''<a'' (dw_exercise_pre @ n @ dw_exercise_sets @ t @ dw_exercise_rest
                                      @ r @ dw_exercise_post)"
    if "CHR ''<'' \<notin> set n \<and> CHR ''<'' \<notin> set t \<and> CHR ''<'' \<notin> set r" for n t r
    using that by (intro no_anchor_plain dw_plain_template) simp_all
  have clean_w: "\<not> sublist ''<a'' (wn_plain_pre @ n @ wn_plain_sets @ t @ wn_plain_rest
                                      @ r @ wn_plain_post)"
    if "CHR ''<'' \<notin> set n \<and> CHR ''<'' \<notin> set t \<and> CHR ''<'' \<notin> set r" for n t r
    using that by (intro no_anchor_plain wn_plain_template) simp_all
  have links: "\<forall>u. map_of ex ''url'' = Some u \<and> truthy u \<longrightarrow>
      sublist (anchor_element (py_str u)
                 (py_str (dict_get ex ''name'' (JStr ''Unknown Exercise'')))) fd
    \<and> sublist (anchor_element (py_str u) (py_str (dict_get ex ''name'' (JStr [])))) fw"
    using link by blast
  have plains: "map_of ex ''url'' = None \<or> (\<exists>u. map_of ex ''url'' = Some u \<and> \<not> truthy u) \<longrightarrow>
      fd = dw_exercise_pre @ py_str (dict_get ex ''name'' (JStr ''Unknown Exercise''))
             @ dw_exercise_sets @ py_str (dict_get ex ''sets'' (JStr []))
             @ dw_exercise_rest @ py_str (dict_get ex ''rest'' (JStr []))
             @ dw_exercise_post
    \<and> fw = wn_plain_pre @ py_str (dict_get ex ''name'' (JStr []))
             @ wn_plain_sets @ py_str (dict_get ex ''sets'' (JStr []))
             @ wn_plain_rest @ py_str (dict_get ex ''rest'' (JStr []))
             @ wn_plain_post
    \<and> (CHR ''<'' \<notin> set (py_str (dict_get ex ''name'' (JStr ''Unknown Exercise'')))
         \<and> CHR ''<'' \<notin> set (py_str (dict_get ex ''sets'' (JStr [])))
         \<and> CHR ''<'' \<notin> set (py_str (dict_get ex ''rest'' (JStr [])))
         \<longrightarrow> \<not> sublist ''<a'' fd)
    \<and> (CHR ''<'' \<notin> set (py_str (dict_get ex ''name'' (JStr [])))
         \<and> CHR ''<'' \<notin> set (py_str (dict_get ex ''sets'' (JStr [])))
         \<and> CHR ''<'' \<notin> set (py_str (dict_get ex ''rest'' (JStr [])))
         \<longrightarrow> \<not> sublist ''<a'' fw)"
  proof
    assume c: "map_of ex ''url'' = None \<or> (\<exists>u. map_of ex ''url'' = Some u \<and> \<not> truthy u)"
    from plain [OF c]
    have e1: "fd = dw_exercise_pre @ py_str (dict_get ex ''name'' (JStr ''Unknown Exercise''))
                     @ dw_exercise_sets @ py_str (dict_get ex ''sets'' (JStr []))
                     @ dw_exercise_rest @ py_str (dict_get ex ''rest'' (JStr []))
                     @ dw_exercise_post"
      and e2: "fw = wn_plain_pre @ py_str (dict_get ex ''name'' (JStr []))
                     @ wn_plain_sets @ py_str (dict_get ex ''sets'' (JStr []))
                     @ wn_plain_rest @ py_str (dict_get ex ''rest'' (JStr []))
                     @ wn_plain_post"
      by blast+
    have n1: "CHR ''<'' \<notin> set (py_str (dict_get ex ''name'' (JStr ''Unknown Exercise'')))
              \<and> CHR ''<'' \<notin> set (py_str (dict_get ex ''sets'' (JStr [])))
              \<and> CHR ''<'' \<notin> set (py_str (dict_get ex ''rest'' (JStr [])))
              \<longrightarrow> \<not> sublist ''<a'' fd"
      unfolding e1 using clean_d by blast
    have n2: "CHR ''<'' \<notin> set (py_str (dict_get ex ''name'' (JStr [])))
              \<and> CHR ''<'' \<notin> set (py_str (dict_get ex ''sets'' (JStr [])))
              \<and> CHR ''<'' \<notin> set (py_str (dict_get ex ''rest'' (JStr [])))
              \<longrightarrow> \<not> sublist ''<a'' fw"
      unfolding e2 using clean_w by blast
    from e1 e2 n1 n2
    show "fd = dw_exercise_pre @ py_str (dict_get ex ''name'' (JStr ''Unknown Exercise''))
             @ dw_exercise_sets @ py_str (dict_get ex ''sets'' (JStr []))
             @ dw_exercise_rest @ py_str (dict_get ex ''rest'' (JStr []))
             @ dw_exercise_post
    \<and> fw = wn_plain_pre @ py_str (dict_get ex ''name'' (JStr []))
             @ wn_plain_sets @ py_str (dict_get ex ''sets'' (JStr []))
             @ wn_plain_rest @ py_str (dict_get ex ''rest'' (JStr []))
             @ wn_plain_post
    \<and> (CHR ''<'' \<notin> set (py_str (dict_get ex ''name'' (JStr ''Unknown Exercise'')))
         \<and> CHR ''<'' \<notin> set (py_str (dict_get ex ''sets'' (JStr [])))
         \<and> CHR ''<'' \<notin> set (py_str (dict_get ex ''rest'' (JStr [])))
         \<longrightarrow> \<not> sublist ''<a'' fd)
    \<and> (CHR ''<'' \<notin> set (py_str (dict_get ex ''name'' (JStr [])))
         \<and> CHR ''<'' \<notin> set (py_str (dict_get ex ''sets'' (JStr [])))
         \<and> CHR ''<'' \<notin> set (py_str (dict_get ex ''rest'' (JStr [])))
         \<longrightarrow> \<not> sublist ''<a'' fw)"
      by (intro conjI)
  qed
  from fd(1) fw(1) rd in_d rw in_w links plains show ?thesis
    by (intro exI [of _ fd] exI [of _ fw] exI [of _ "bd @ dw_tail"] exI [of _ "bw @ wn_tail"] conjI)
qed

theorem exercise_html_hyperlink_witness:
  \<open>day_entry leg_day
   \<and> (\<exists>fd fw hd hw.
         dw_exercise_html squat = Inr fd \<and> wn_exercise_html squat = Inr fw
       \<and> fst (dw_build_workout_html leg_day []) = Inr hd \<and> sublist fd hd
       \<and> fst (wn_build_workout_html leg_day []) = Inr hw \<and> sublist fw hw
       \<and> sublist (anchor_element ''http://example.com/squat'' ''Squat'') fd
       \<and> sublist (anchor_element ''http://example.com/squat'' ''Squat'') fw)
   \<and> (\<exists>fd fw. dw_exercise_html (JObj [(''name'', JStr ''Plank'')]) = Inr fd
         \<and> wn_exercise_html (JObj [(''name'', JStr ''Plank'')]) = Inr fw
         \<and> \<not> sublist ''<a'' fd \<and> \<not> sublist ''<a'' fw)\<close>
proof -
  define sq where \<open>sq = [(''name'', JStr ''Squat''), (''sets'', JStr ''5x5''), (''rest'', JStr ''90s''),
                         (''url'', JStr ''http://example.com/squat'')]\<close>
  define ld where "ld = [(''title'', JStr ''Leg Day''), (''exercises'', JList [JObj sq])]"
  define pl where "pl = [(''name'', JStr ''Plank'')]"
  define pd where "pd = [(''exercises'', JList [JObj pl])]"
  have names: "squat = JObj sq" "leg_day = JObj ld"
    by (simp_all add: squat_def leg_day_def sq_def ld_def)
  have shape: "day_entry (JObj ld)" "day_entry (JObj pd)"
    by (simp_all add: day_entry_def ld_def pd_def)
  have exs: "map_of ld ''exercises'' = Some (JList [JObj sq])"
    "map_of pd ''exercises'' = Some (JList [JObj pl])"
    by (simp_all add: ld_def pd_def)
  have mem: "JObj sq \<in> set [JObj sq]" "JObj pl \<in> set [JObj pl]"
    by simp_all
  have url: "map_of sq ''url'' = Some (JStr ''http://example.com/squat'')
           \<and> truthy (JStr ''http://example.com/squat'')"
    by (simp add: sq_def)
  have strs: "py_str (JStr ''http://example.com/squat'') = ''http://example.com/squat''"
    "py_str (dict_get sq ''name'' (JStr ''Unknown Exercise'')) = ''Squat''"
    "py_str (dict_get sq ''name'' (JStr [])) = ''Squat''"
    by (simp_all add: sq_def dict_get_def)
  have none: "map_of pl ''url'' = None"
    by (simp add: pl_def)
  have clean:
    "CHR ''<'' \<notin> set (py_str (dict_get pl ''name'' (JStr ''Unknown Exercise'')))
     \<and> CHR ''<'' \<notin> set (py_str (dict_get pl ''sets'' (JStr [])))
     \<and> CHR ''<'' \<notin> set (py_str (dict_get pl ''rest'' (JStr [])))"
    "CHR ''<'' \<notin> set (py_str (dict_get pl ''name'' (JStr [])))
     \<and> CHR ''<'' \<notin> set (py_str (dict_get pl ''sets'' (JStr [])))
     \<and> CHR ''<'' \<notin> set (py_str (dict_get pl ''rest'' (JStr [])))"
    by (simp_all add: pl_def dict_get_def)
  have linked: "\<exists>fd fw hd hw.
         dw_exercise_html (JObj sq) = Inr fd \<and> wn_exercise_html (JObj sq) = Inr fw
       \<and> fst (dw_build_workout_html (JObj ld) []) = Inr hd \<and> sublist fd hd
       \<and> fst (wn_build_workout_html (JObj ld) []) = Inr hw \<and> sublist fw hw
       \<and> sublist (anchor_element ''http://example.com/squat'' ''Squat'') fd
       \<and> sublist (anchor_element ''http://example.com/squat'' ''Squat'') fw"
    using exercise_html_hyperlink [OF shape(1) exs(1) mem(1), of "[]"] url strs
    by metis
  have plain: "\<exists>fd fw. dw_exercise_html (JObj pl) = Inr fd \<and> wn_exercise_html (JObj pl) = Inr fw
         \<and> \<not> sublist ''<a'' fd \<and> \<not> sublist ''<a'' fw"
    using exercise_html_hyperlink [OF shape(2) exs(2) mem(2), of "[]"] none clean
    by metis
  from shape(1) linked plain show ?thesis
    unfolding names pl_def by blast
qed

text \<open>
  The claim as stated fails for an exercise whose \<^verbatim>\<open>url\<close> is present but empty: both
  renderers test the truth value of the url, not its presence, and render the plain name.
\<close>

theorem exercise_html_empty_url_counterexample:
  \<open>map_of [(''name'', JStr ''Squat''), (''url'', JStr [])] ''url'' = Some (JStr [])
   \<and> dw_exercise_html (JObj [(''name'', JStr ''Squat''), (''url'', JStr [])])
       = Inr (dw_exercise_pre @ ''Squat'' @ dw_exercise_sets @ dw_exercise_rest @ dw_exercise_post)
   \<and> wn_exercise_html (JObj [(''name'', JStr ''Squat''), (''url'', JStr [])])
       = Inr (wn_plain_pre @ ''Squat'' @ wn_plain_sets @ wn_plain_rest @ wn_plain_post)
   \<and> \<not> sublist (anchor_element [] ''Squat'')
          (dw_exercise_pre @ ''Squat'' @ dw_exercise_sets @ dw_exercise_rest @ dw_exercise_post)
   \<and> \<not> sublist (anchor_element [] ''Squat'')
          (wn_plain_pre @ ''Squat'' @ wn_plain_sets @ wn_plain_rest @ wn_plain_post)\<close>
proof -
  have frags:
    "dw_exercise_html (JObj [(''name'', JStr ''Squat''), (''url'', JStr [])])
       = Inr (dw_exercise_pre @ ''Squat'' @ dw_exercise_sets @ dw_exercise_rest @ dw_exercise_post)"
    "wn_exercise_html (JObj [(''name'', JStr ''Squat''), (''url'', JStr [])])
       = Inr (wn_plain_pre @ ''Squat'' @ wn_plain_sets @ wn_plain_rest @ wn_plain_post)"
    by (simp_all add: dw_exercise_html_dict_eq wn_exercise_html_dict_eq dict_get_def)
  have "\<not> sublist ''<a'' (dw_exercise_pre @ ''Squat'' @ dw_exercise_sets @ [] @ dw_exercise_rest
                            @ [] @ dw_exercise_post)"
    by (intro no_anchor_plain dw_plain_template) simp_all
  then have d: "\<not> sublist ''<a''
      (dw_exercise_pre @ ''Squat'' @ dw_exercise_sets @ dw_exercise_rest @ dw_exercise_post)"
    by simp
  have "\<not> sublist ''<a'' (wn_plain_pre @ ''Squat'' @ wn_plain_sets @ [] @ wn_plain_rest
                            @ [] @ wn_plain_post)"
    by (intro no_anchor_plain wn_plain_template) simp_all
  then have w: "\<not> sublist ''<a''
      (wn_plain_pre @ ''Squat'' @ wn_plain_sets @ wn_plain_rest @ wn_plain_post)"
    by simp
  have starts: "sublist ''<a'' (anchor_element [] ''Squat'')"
    by (simp add: anchor_element_def sublist_code)
  from d w starts frags show ?thesis
    using sublist_trans by auto
qed

section \<open>The pipeline\<close>

subsection \<open>A session with the relay\<close>






subsection \<open>The dispatcher\<close>






subsection \<open>The one-shot \<^verbatim>\<open>main\<close> up to the dispatcher\<close>

lemma dw_build_workout_html_ok:
  assumes "day_entry (JObj d)"
  shows "\<exists>html. dw_build_workout_html (JObj d) s
           = (Inr html,
              s @ [Log INFO (''Building HTML for: ''
                     @ py_str (dict_get d ''title'' (JStr ''Workout'')))])"
proof -
  from assms obtain html where "fst (dw_build_workout_html (JObj d) s) = Inr html"
    using dw_build_workout_html_returns by blast
  then show ?thesis
    by (auto simp: dw_build_workout_html_run Let_def dict_get_def split: sum.splits)
qed


subsection \<open>Transport failures\<close>



subsection \<open>An empty days list\<close>




subsection \<open>A port that is not a number\<close>

lemma show_nat_digits: "show_nat 0 = ''0''" "show_nat (Suc 0) = ''1''"
  by code_simp+

text \<open>
  In the one-shot variant the port is converted inside the \<^verbatim>\<open>try\<close> of
  \<^verbatim>\<open>send_email\<close>, so the \<^verbatim>\<open>ValueError\<close> is logged as an unexpected error and the
  function returns. The long-running variant converts it at module level and exits.
\<close>

lemma dw_send_email_bad_port:
  assumes "py_int smtp_port = Inl (ValueError t)"
  shows "dw_send_email tr subject html_body smtp_server smtp_port a pw r s
           = (Inr (),
              s @ [Log INFO (''Preparing to send email to '' @ r
                      @ '' with subject '' @ [CHR 0x27] @ subject @ [CHR 0x27]),
                   Log INFO (''Connecting to SMTP server: '' @ smtp_server @ '':'' @ smtp_port),
                   Log ERROR (''Unexpected error when sending email: '' @ t)])"
  using assms by (simp add: dw_send_email_def Let_def)

lemma wn_module_bad_port:
  assumes "list_all env_truthy
             [env ''SMTP_SERVER'', env ''SMTP_PORT'', env ''EMAIL_ADDRESS'',
              env ''EMAIL_PASSWORD'', env ''RECIPIENT_EMAIL'']"
    and "env ''SMTP_PORT'' = Some smtp_port" and "py_int smtp_port = Inl (ValueError t)"
  shows "wn_module env json_file_path fr s
           = (Inl (SystemExit 1),
              s @ [Log INFO ''Daily Workout Scheduler script started.'',
                   Log ERROR (''Invalid SMTP_PORT value: '' @ smtp_port)])"
  using assms by (simp add: wn_module_def Let_def)

text \<open>
  C4 at \<^verbatim>\<open>SMTP_PORT="abc"\<close>, the other four values set. Neither variant makes a network
  attempt. The long-running variant logs the invalid port and exits with status 1. The
  one-shot variant signals no fatal error: \<^verbatim>\<open>main\<close> returns and the process exits with
  status 0, the failed conversion being one more record in the log.
\<close>

theorem bad_port_one_shot_returns:
  "dw_main ''/app/workouts.json'' (Inr (JObj example_doc)) 0 ''Monday'' (example_env ''abc'')
      relay_ok []
     = (Inr (),
        [Log INFO ''Loading workouts from /app/workouts.json'',
         Log INFO ''Loaded 1 days of workouts.'',
         Log INFO ''Today's index (UTC): 0'',
         Log INFO ''Building HTML for: Leg Day'',
         Log INFO (''Preparing to send email to me@example.com with subject ''
                     @ [CHR 0x27] @ ''Leg Day - Monday'' @ [CHR 0x27]),
         Log INFO ''Connecting to SMTP server: smtp.example.com:abc'',
         Log ERROR (''Unexpected error when sending email: invalid literal for int() with base 10: ''
                      @ [CHR 0x27] @ ''abc'' @ [CHR 0x27])])
   \<and> exit_status (fst (dw_main ''/app/workouts.json'' (Inr (JObj example_doc)) 0 ''Monday''
                         (example_env ''abc'') relay_ok [])) = 0
   \<and> \<not> list_ex is_network
         (snd (dw_main ''/app/workouts.json'' (Inr (JObj example_doc)) 0 ''Monday''
                 (example_env ''abc'') relay_ok []))
   \<and> wn_module (example_env ''abc'') ''/app/workouts.json'' (Inr (JObj example_doc)) []
       = (Inl (SystemExit 1),
          [Log INFO ''Daily Workout Scheduler script started.'',
           Log ERROR ''Invalid SMTP_PORT value: abc''])"
proof -
  have port: "py_int ''abc''
      = Inl (ValueError (''invalid literal for int() with base 10: '' @ [CHR 0x27] @ ''abc'' @ [CHR 0x27]))"
    by code_simp
  have env: "list_all env_truthy
      [example_env ''abc'' ''SMTP_SERVER'', example_env ''abc'' ''SMTP_PORT'',
       example_env ''abc'' ''EMAIL_ADDRESS'', example_env ''abc'' ''EMAIL_PASSWORD'',
       example_env ''abc'' ''RECIPIENT_EMAIL'']"
    "example_env ''abc'' ''SMTP_PORT'' = Some ''abc''"
    by (simp_all add: example_env_def)
  have load: "dw_load_workouts ''/app/workouts.json'' (Inr (JObj example_doc)) []
      = (Inr (JList [leg_day]),
         [Log INFO ''Loading workouts from /app/workouts.json'',
          Log INFO ''Loaded 1 days of workouts.''])"
    by (simp add: dw_load_workouts_def example_doc_def show_nat_digits)
  have sel: "dw_get_today_workout 0 (JList [leg_day]) s
      = (Inr leg_day, s @ [Log INFO ''Today's index (UTC): 0''])" for s
    by (simp add: dw_get_today_workout_def leg_day_def show_nat_digits)
  have "day_entry (JObj [(''title'', JStr ''Leg Day''), (''exercises'', JList [squat])])"
    by (simp add: squat_def day_entry_def)
  then obtain html where "dw_build_workout_html leg_day
        [Log INFO ''Loading workouts from /app/workouts.json'',
         Log INFO ''Loaded 1 days of workouts.'',
         Log INFO ''Today's index (UTC): 0'']
      = (Inr html,
         [Log INFO ''Loading workouts from /app/workouts.json'',
          Log INFO ''Loaded 1 days of workouts.'',
          Log INFO ''Today's index (UTC): 0'',
          Log INFO ''Building HTML for: Leg Day''])"
    using dw_build_workout_html_ok
            [of "[(''title'', JStr ''Leg Day''), (''exercises'', JList [squat])]"
                "[Log INFO ''Loading workouts from /app/workouts.json'',
                  Log INFO ''Loaded 1 days of workouts.'',
                  Log INFO ''Today's index (UTC): 0'']"]
    by (auto simp: leg_day_def dict_get_def)
  note html = this
  have title: "py_get leg_day ''title'' (JStr ''Your Workout'') = Inr (JStr ''Leg Day'')"
    by (simp add: leg_day_def)
  have main: "dw_main ''/app/workouts.json'' (Inr (JObj example_doc)) 0 ''Monday''
      (example_env ''abc'') relay_ok []
     = (Inr (),
        [Log INFO ''Loading workouts from /app/workouts.json'',
         Log INFO ''Loaded 1 days of workouts.'',
         Log INFO ''Today's index (UTC): 0'',
         Log INFO ''Building HTML for: Leg Day'',
         Log INFO (''Preparing to send email to me@example.com with subject ''
                     @ [CHR 0x27] @ ''Leg Day - Monday'' @ [CHR 0x27]),
         Log INFO ''Connecting to SMTP server: smtp.example.com:abc'',
         Log ERROR (''Unexpected error when sending email: invalid literal for int() with base 10: ''
                      @ [CHR 0x27] @ ''abc'' @ [CHR 0x27])])"
    using load sel [of "[Log INFO ''Loading workouts from /app/workouts.json'',
                         Log INFO ''Loaded 1 days of workouts.'']"]
      html title dw_send_email_bad_port [OF port]
    by (simp add: dw_main_def Let_def example_env_def)
  have init: "wn_module (example_env ''abc'') ''/app/workouts.json'' (Inr (JObj example_doc)) []
       = (Inl (SystemExit 1),
          [Log INFO ''Daily Workout Scheduler script started.'',
           Log ERROR ''Invalid SMTP_PORT value: abc''])"
    using wn_module_bad_port [OF env port, of "''/app/workouts.json''" "Inr (JObj example_doc)" "[]"]
    by simp
  from main init show ?thesis
    by simp
qed

end
